theory Spec2Isabelle
  imports Complex_Main "HOL-Library.AList"
begin

section \<open>The Input class of Galaxia_ananke\<close>

text \<open>
  A shallow embedding of \<^verbatim>\<open>src/Galaxia_ananke/Input.py\<close>. Python dictionaries are
  association lists with distinct keys, kept in insertion order. NumPy arrays carry a dtype
  tag and their values as reals: arithmetic is exact, so the rounding, overflow, infinities
  and NaN of IEEE floating point are outside the model. Every exception of the source is a
  value \<open>Inl e\<close> of the result type \<open>error + 'a\<close>. The file system is a map from
  paths to file contents, passed in and returned explicitly.
\<close>

subsection \<open>Errors, dictionaries, arrays\<close>

datatype error =
    SchemaError
  | LengthMismatchError "string list"
  | ValueError
  | IndexError
  | TypeError
  | KeyError string
  | IOError

type_synonym 'v dict = "(string \<times> 'v) list"

definition keys :: "'v dict \<Rightarrow> string list" where
  "keys d = map fst d"

definition getitem :: "'v dict \<Rightarrow> string \<Rightarrow> error + 'v" where
  "getitem d k = (case map_of d k of None \<Rightarrow> Inl (KeyError k) | Some v \<Rightarrow> Inr v)"

definition setitem :: "'v dict \<Rightarrow> string \<Rightarrow> 'v \<Rightarrow> 'v dict" where
  "setitem d k v = AList.update k v d"

datatype dtype = Int64 | Float32 | Float64

text \<open>
  A one-dimensional array is its dtype and its values; a two-dimensional array also records
  its number of columns, so that the shape \<open>(0, c)\<close> is represented.
\<close>

datatype ndarray =
    Arr1 dtype "real list"
  | Arr2 dtype nat "real list list"

fun len :: "ndarray \<Rightarrow> nat" where
  "len (Arr1 t xs) = length xs"
| "len (Arr2 t c rows) = length rows"



definition arange :: "nat \<Rightarrow> ndarray" where
  "arange n = Arr1 Int64 (map real [0..<n])"

definition zeros :: "nat \<Rightarrow> ndarray" where
  "zeros n = Arr1 Float64 (replicate n 0)"

text \<open>\<^verbatim>\<open>0*a\<close>: the Python integer \<open>0\<close> times an array keeps the array's dtype and shape.\<close>

fun zero_times :: "ndarray \<Rightarrow> ndarray" where
  "zero_times (Arr1 t xs) = Arr1 t (map (\<lambda>x. 0 * x) xs)"
| "zero_times (Arr2 t c rows) = Arr2 t c (map (map (\<lambda>x. 0 * x)) rows)"

text \<open>A scalar or a one-dimensional float array, for \<^verbatim>\<open>k_factor\<close> and \<^verbatim>\<open>knorm\<close>.\<close>

datatype scalar_or_array = Scalar real | Array "real list"

subsection \<open>Paths\<close>

text \<open>
  A \<^verbatim>\<open>pathlib.Path\<close> is whether it is absolute and its list of components.
\<close>

datatype path = Path (is_absolute: bool) (parts: "string list")

definition parent :: "path \<Rightarrow> path" where
  "parent p = Path (is_absolute p) (butlast (parts p))"

definition path_name :: "path \<Rightarrow> string" where
  "path_name p = (if parts p = [] then [] else last (parts p))"

text \<open>\<^verbatim>\<open>p / q\<close>\<close>

definition joinpath :: "path \<Rightarrow> path \<Rightarrow> path" where
  "joinpath p q = (if is_absolute q then q else Path (is_absolute p) (parts p @ parts q))"

subsection \<open>Class constants\<close>

text \<open>
  The keys \<^verbatim>\<open>_pos\<close>, \<^verbatim>\<open>_vel\<close>, \<^verbatim>\<open>_mass\<close>, ... of the class (an identifier cannot begin
  with an underscore, so \<^verbatim>\<open>_mass\<close> is \<open>mass_key\<close>), and the two sets of keys, listed in
  the order of the source.
\<close>

definition pos_key :: string where "pos_key = ''pos3''"
definition vel_key :: string where "vel_key = ''vel3''"
definition mass_key :: string where "mass_key = ''mass''"
definition age_key :: string where "age_key = ''age''"
definition feh_key :: string where "feh_key = ''feh''"
definition parentid_key :: string where "parentid_key = ''parentid''"
definition pop_id_key :: string where "pop_id_key = ''id''"
definition dform_key :: string where "dform_key = ''dform''"
definition kernels_key :: string where "kernels_key = ''h_cubic''"
definition density_key :: string where "density_key = ''density''"

definition required_keys_in_particles :: "string list" where
  "required_keys_in_particles =
     [pos_key, vel_key, mass_key, age_key, feh_key]"

definition optional_keys_in_particles :: "string list" where
  "optional_keys_in_particles =
     [parentid_key, pop_id_key, dform_key, ''helium'', ''carbon'', ''nitrogen'', ''oxygen'',
      ''neon'', ''magnesium'', ''silicon'', ''sulphur'', ''calcium'', ''alpha'']"

definition all_possible_keys_in_particles :: "string list" where
  "all_possible_keys_in_particles = required_keys_in_particles @ optional_keys_in_particles"

definition FOURTHIRDPI :: real where
  "FOURTHIRDPI = 4 * pi / 3"

definition cbrt :: "real \<Rightarrow> real" where
  "cbrt x = root 3 x"

subsection \<open>The validators of \<^verbatim>\<open>utils\<close>\<close>

text \<open>
  Modelled from the spec: \<^verbatim>\<open>compare_given_and_required\<close> of \<^verbatim>\<open>utils.py\<close>, which is
  not among the sources. Spec 4.1: it fails with a SchemaError unless every required key is
  given and every given key is a required or an optional key.
\<close>

definition compare_given_and_required ::
  "string list \<Rightarrow> string list \<Rightarrow> string list \<Rightarrow> error + unit" where
  "compare_given_and_required given required optional =
     (if set required \<subseteq> set given \<and> set given \<subseteq> set required \<union> set optional
      then Inr () else Inl SchemaError)"

text \<open>
  Modelled from the spec: \<^verbatim>\<open>confirm_equal_length_arrays_in_dict\<close> of \<^verbatim>\<open>utils.py\<close>,
  which is not among the sources. Spec 4.1: it fails with a LengthMismatchError listing every
  key whose array length differs from the length of the reference array.
\<close>

definition confirm_equal_length_arrays_in_dict :: "ndarray dict \<Rightarrow> string \<Rightarrow> error + unit" where
  "confirm_equal_length_arrays_in_dict d ref =
     (case getitem d ref of
        Inl e \<Rightarrow> Inl e
      | Inr r \<Rightarrow>
          (let bad = map fst (filter (\<lambda>(k, a). len a \<noteq> len r) d)
           in if bad = [] then Inr () else Inl (LengthMismatchError bad)))"

subsection \<open>Particle verification\<close>

text \<open>
  \<^verbatim>\<open>Input.__verify_particles\<close> (lines 334-341): both validators, then the defaults for
  \<^verbatim>\<open>parentid\<close> and \<^verbatim>\<open>dform\<close>. The source mutates the dictionary; the model returns it.
  \<^verbatim>\<open>self.length\<close> is \<^verbatim>\<open>len(self.particles['mass'])\<close>.
\<close>

definition verify_particles :: "ndarray dict \<Rightarrow> error + ndarray dict" where
  "verify_particles p =
     (case compare_given_and_required (keys p) required_keys_in_particles
             optional_keys_in_particles of
        Inl e \<Rightarrow> Inl e
      | Inr u \<Rightarrow>
     (case confirm_equal_length_arrays_in_dict p mass_key of
        Inl e \<Rightarrow> Inl e
      | Inr u \<Rightarrow>
     (case (if parentid_key \<notin> set (keys p)
            then (case getitem p mass_key of
                    Inl e \<Rightarrow> Inl e
                  | Inr m \<Rightarrow> Inr (setitem p parentid_key (arange (len m))))
            else Inr p) of
        Inl e \<Rightarrow> Inl e
      | Inr p1 \<Rightarrow>
          (if dform_key \<notin> set (keys p1)
           then (case getitem p1 mass_key of
                   Inl e \<Rightarrow> Inl e
                 | Inr m \<Rightarrow> Inr (setitem p1 dform_key (zero_times m)))
           else Inr p1))))"

subsection \<open>Strings: decimal numbers and the two filename patterns\<close>

definition is_digit :: "char \<Rightarrow> bool" where
  "is_digit c = (c \<in> set ''0123456789'')"

definition digit_val :: "char \<Rightarrow> nat" where
  "digit_val c = of_char c - 48"

text \<open>\<^verbatim>\<open>int(s)\<close> on a string of digits; the empty string raises ValueError.\<close>

definition int_of_string :: "string \<Rightarrow> error + nat" where
  "int_of_string s =
     (if s = [] \<or> \<not> list_all is_digit s then Inl ValueError
      else Inr (foldl (\<lambda>a c. 10 * a + digit_val c) 0 s))"

text \<open>The decimal digits of a number, as an f-string prints it.\<close>

function show_nat :: "nat \<Rightarrow> string" where
  "show_nat n =
     (if n < 10 then [''0123456789'' ! n]
      else show_nat (n div 10) @ [''0123456789'' ! (n mod 10)])"
  by pat_completeness auto
termination
  by (relation "measure id") auto

declare show_nat.simps [simp del]

definition newline :: char where
  "newline = CHR 0x0A"

text \<open>
  \<^verbatim>\<open>re.findall("(.*).ebf", s)\<close> (line 122). In the pattern the dot before \<^verbatim>\<open>ebf\<close> is
  a wildcard. At a start position the greedy \<^verbatim>\<open>.*\<close> first takes the longest run of
  characters other than newline, then gives characters back until one more such character
  and \<^verbatim>\<open>ebf\<close> follow. \<open>match_ebf_at s\<close> is the group of the match starting at the
  head of \<open>s\<close>; \<open>findall_ebf\<close> is the group of the leftmost match, \<open>None\<close> when
  \<^verbatim>\<open>findall\<close> returns the empty list.
\<close>

definition ebf_follows :: "string \<Rightarrow> bool" where
  "ebf_follows s =
     (case s of c # r \<Rightarrow> c \<noteq> newline \<and> take 3 r = ''ebf'' | [] \<Rightarrow> False)"

definition match_ebf_at :: "string \<Rightarrow> string option" where
  "match_ebf_at s =
     (let m = length (takeWhile (\<lambda>c. c \<noteq> newline) s)
      in map_option (\<lambda>j. take j s) (find (\<lambda>j. ebf_follows (drop j s)) (rev [0..<Suc m])))"

fun findall_ebf :: "string \<Rightarrow> string option" where
  "findall_ebf [] = match_ebf_at []"
| "findall_ebf (c # cs) =
     (case match_ebf_at (c # cs) of Some g \<Rightarrow> Some g | None \<Rightarrow> findall_ebf cs)"

text \<open>
  \<^verbatim>\<open>re.findall(f"{name}_d(\\d*)n(\\d*)_den.ebf", s)\<close> (line 123). The source puts the name
  into the pattern as it is; the model compares it literally, which is the same for a name
  without regular-expression operators. A greedy \<^verbatim>\<open>\d*\<close> takes the whole run of digits, and
  giving digits back cannot help, since the character to follow is not a digit. Digits are
  the ASCII digits.
\<close>

definition strip_prefix :: "string \<Rightarrow> string \<Rightarrow> string option" where
  "strip_prefix p s = (if take (length p) s = p then Some (drop (length p) s) else None)"

definition match_den_at :: "string \<Rightarrow> string \<Rightarrow> (string \<times> string) option" where
  "match_den_at nm s =
     (case strip_prefix (nm @ ''_d'') s of
        None \<Rightarrow> None
      | Some r1 \<Rightarrow>
     (case strip_prefix ''n'' (dropWhile is_digit r1) of
        None \<Rightarrow> None
      | Some r2 \<Rightarrow>
     (case strip_prefix ''_den'' (dropWhile is_digit r2) of
        None \<Rightarrow> None
      | Some r3 \<Rightarrow>
          (if ebf_follows r3 then Some (takeWhile is_digit r1, takeWhile is_digit r2)
           else None))))"

fun findall_den :: "string \<Rightarrow> string \<Rightarrow> (string \<times> string) option" where
  "findall_den nm [] = match_den_at nm []"
| "findall_den nm (c # cs) =
     (case match_den_at nm (c # cs) of Some g \<Rightarrow> Some g | None \<Rightarrow> findall_den nm cs)"

text \<open>
  Lines 122-124: the name from the particle file's name, then \<^verbatim>\<open>_hdim\<close> and \<^verbatim>\<open>ngb\<close>
  from the kernel file's name. Indexing an empty \<^verbatim>\<open>findall\<close> result with \<^verbatim>\<open>[0]\<close> raises
  IndexError; \<^verbatim>\<open>int\<close> of an empty group raises ValueError.
\<close>

definition parse_name :: "string \<Rightarrow> error + string" where
  "parse_name pn = (case findall_ebf pn of None \<Rightarrow> Inl IndexError | Some nm \<Rightarrow> Inr nm)"

definition parse_hdim_ngb :: "string \<Rightarrow> string \<Rightarrow> error + nat \<times> nat" where
  "parse_hdim_ngb nm kn =
     (case findall_den nm kn of
        None \<Rightarrow> Inl IndexError
      | Some (h, g) \<Rightarrow>
     (case int_of_string h of
        Inl e \<Rightarrow> Inl e
      | Inr hdm \<Rightarrow>
     (case int_of_string g of
        Inl e \<Rightarrow> Inl e
      | Inr ng \<Rightarrow> Inr (hdm, ng))))"

text \<open>\<^verbatim>\<open>pathlib.Path(s)\<close> of a string: empty components and \<^verbatim>\<open>.\<close> are dropped.\<close>

fun split_slash :: "string \<Rightarrow> string list" where
  "split_slash [] = [[]]"
| "split_slash (c # cs) =
     (if c = CHR ''/'' then [] # split_slash cs
      else (case split_slash cs of w # ws \<Rightarrow> (c # w) # ws | [] \<Rightarrow> [[c]]))"

definition Path_of :: "string \<Rightarrow> path" where
  "Path_of s = Path (take 1 s = ''/'') (filter (\<lambda>w. w \<noteq> [] \<and> w \<noteq> ''.'') (split_slash s))"

subsection \<open>Files\<close>

text \<open>
  An EBF file is the list of its named arrays in the order written; a text file is its
  contents. \<^verbatim>\<open>ebf.write\<close> names an array by a tag \<^verbatim>\<open>/key\<close>, and \<^verbatim>\<open>ebf.read\<close> returns the
  dictionary of the arrays under their keys.
\<close>

datatype file_content = EbfFile "ndarray dict" | TextFile string

type_synonym filesystem = "path \<Rightarrow> file_content option"

definition ebf_initialize :: "filesystem \<Rightarrow> path \<Rightarrow> filesystem" where
  "ebf_initialize fs p = fs(p \<mapsto> EbfFile [])"

definition ebf_write :: "filesystem \<Rightarrow> path \<Rightarrow> string \<Rightarrow> ndarray \<Rightarrow> error + filesystem" where
  "ebf_write fs p tag a =
     (case fs p of
        Some (EbfFile d) \<Rightarrow>
          (if tag \<in> set (keys d) then Inl IOError else Inr (fs(p \<mapsto> EbfFile (d @ [(tag, a)]))))
      | _ \<Rightarrow> Inl IOError)"

definition ebf_read :: "filesystem \<Rightarrow> path \<Rightarrow> error + ndarray dict" where
  "ebf_read fs p =
     (case fs p of
        Some (EbfFile d) \<Rightarrow> Inr (map (\<lambda>(tag, a). (drop 1 tag, a)) d)
      | _ \<Rightarrow> Inl IOError)"

subsection \<open>NumPy operations on arrays\<close>

text \<open>
  An elementwise binary operation on two one-dimensional arrays: equal lengths, or one of
  them of length one, which is broadcast; other shapes raise ValueError.
\<close>

definition broadcast2 ::
  "(real \<Rightarrow> real \<Rightarrow> real) \<Rightarrow> real list \<Rightarrow> real list \<Rightarrow> error + real list" where
  "broadcast2 f xs ys =
     (if length xs = length ys then Inr (map2 f xs ys)
      else if length xs = 1 then Inr (map (f (hd xs)) ys)
      else if length ys = 1 then Inr (map (\<lambda>x. f x (hd ys)) xs)
      else Inl ValueError)"

text \<open>
  \<^verbatim>\<open>a[:,j]\<close>: column \<open>j\<close> of a two-dimensional array; IndexError on a one-dimensional
  array or when there is no such column.
\<close>

fun column :: "ndarray \<Rightarrow> nat \<Rightarrow> error + real list" where
  "column (Arr1 t xs) j = Inl IndexError"
| "column (Arr2 t c rows) j = (if j < c then Inr (map (\<lambda>r. r ! j) rows) else Inl IndexError)"

text \<open>
  The values of a one-dimensional array. The kernel file holds its density as a
  one-dimensional array (spec 6); what NumPy's broadcasting makes of a two-dimensional one
  is not modelled, and the model rejects it.
\<close>

fun vector :: "ndarray \<Rightarrow> error + real list" where
  "vector (Arr1 t xs) = Inr xs"
| "vector (Arr2 t c rows) = Inl ValueError"

text \<open>\<^verbatim>\<open>np.round\<close> rounds halves to the even neighbour.\<close>

definition round_half_even :: "real \<Rightarrow> int" where
  "round_half_even x =
     (let f = \<lfloor>x\<rfloor>; d = x - of_int f
      in if d < 1 / 2 then f else if 1 / 2 < d then f + 1 else if even f then f else f + 1)"

text \<open>
  \<^verbatim>\<open>np.median\<close>: the middle value of the sorted array, the mean of the two middle values
  when the length is even. (On an empty array NumPy gives NaN; the source takes the median
  of a non-empty array only.)
\<close>

definition median :: "real list \<Rightarrow> real" where
  "median xs =
     (let s = sort xs; n = length xs
      in if n = 0 then 0
         else if odd n then s ! (n div 2)
         else (s ! (n div 2 - 1) + s ! (n div 2)) / 2)"

subsection \<open>Constants of the package\<close>

text \<open>
  The module \<^verbatim>\<open>constants\<close> is not among the sources: the constants the class uses are
  parameters of the model. \<^verbatim>\<open>TTAGS\<close> names the fields of the parameter file;
  \<^verbatim>\<open>PARFILE_TEMPLATE.substitute\<close> renders a mapping of parameters as text, or fails.
\<close>

datatype pval =
    PStr string
  | PInt int
  | PReal real
  | PNames "string list"
  | PPath path

record constants =
  GALAXIA_TMP :: path
  DEFAULT_PARFILE :: path
  DEFAULTS_FOR_PARFILE :: "pval dict"
  TTAGS_photo_categ :: string
  TTAGS_photo_sys :: string
  TTAGS_mag_color_names :: string
  TTAGS_nres :: string
  PARFILE_TEMPLATE_substitute :: "pval dict \<Rightarrow> error + string"

subsection \<open>The constructor\<close>

record Input =
  particles :: "ndarray dict"
  rho_pos :: ndarray
  rho_vel :: "real list option"
  input_dir :: path
  name :: string
  pname_attr :: "path option"
  kname_attr :: "path option"
  ngb :: nat
  k_factor :: scalar_or_array
  input_files_exist :: bool

text \<open>
  The keyword \<^verbatim>\<open>former_kernel\<close> is a boolean or a dictionary that may hold \<^verbatim>\<open>knorm\<close>.
  A dictionary is true in a condition when it is not empty.
\<close>

datatype former_kernel = FK_bool bool | FK_dict "scalar_or_array dict"

fun truthy :: "former_kernel \<Rightarrow> bool" where
  "truthy (FK_bool b) = b"
| "truthy (FK_dict d) = (d \<noteq> [])"

fun sa_map :: "(real \<Rightarrow> real) \<Rightarrow> scalar_or_array \<Rightarrow> scalar_or_array" where
  "sa_map f (Scalar x) = Scalar (f x)"
| "sa_map f (Array xs) = Array (map f xs)"

text \<open>
  Lines 142-154, common to both call signatures: the particles are verified, the attributes
  are stored with their defaults, and \<^verbatim>\<open>k_factor\<close> is the keyword when given, else
  \<open>1\<close> without \<^verbatim>\<open>former_kernel\<close> and \<^verbatim>\<open>sqrt(ngb) * knorm * cbrt(FOURTHIRDPI)\<close> with it.
  The default of \<^verbatim>\<open>ngb\<close> is a constant of the missing module, so \<^verbatim>\<open>ngb\<close> is always
  passed.
\<close>

definition init_common ::
  "constants \<Rightarrow> ndarray dict \<Rightarrow> ndarray \<Rightarrow> real list option \<Rightarrow> path option \<Rightarrow> string option \<Rightarrow>
   path option \<Rightarrow> path option \<Rightarrow> nat \<Rightarrow> former_kernel option \<Rightarrow> scalar_or_array option \<Rightarrow>
   bool \<Rightarrow> error + Input" where
  "init_common C p rp rv dir nm pn kn g fk kf fe =
     (case verify_particles p of
        Inl e \<Rightarrow> Inl e
      | Inr p' \<Rightarrow>
          (let old = (case fk of None \<Rightarrow> FK_bool False | Some f \<Rightarrow> f);
               old' = (case old of FK_bool b \<Rightarrow> (if b then FK_dict [] else old)
                                 | FK_dict d \<Rightarrow> old);
               knorm = (case old' of
                          FK_dict d \<Rightarrow>
                            Some (case map_of d ''knorm'' of
                                    Some v \<Rightarrow> v | None \<Rightarrow> Scalar (596831 / 1000000))
                        | FK_bool b \<Rightarrow> None)
           in Inr \<lparr>particles = p', rho_pos = rp, rho_vel = rv,
                   input_dir = (case dir of None \<Rightarrow> GALAXIA_TMP C | Some d \<Rightarrow> d),
                   name = (case nm of None \<Rightarrow> ''sim'' | Some n \<Rightarrow> n),
                   pname_attr = pn, kname_attr = kn, ngb = g,
                   k_factor =
                     (case kf of
                        Some k \<Rightarrow> k
                      | None \<Rightarrow>
                          (case knorm of
                             None \<Rightarrow> Scalar 1
                           | Some kn \<Rightarrow>
                               sa_map (\<lambda>x. sqrt (real g) * x * cbrt FOURTHIRDPI) kn)),
                   input_files_exist = fe\<rparr>))"

text \<open>
  The first signature (lines 111-116):
  \<^verbatim>\<open>Input(particles, rho_pos, rho_vel=None, input_dir=..., name=..., ngb=..., k_factor=1., former_kernel=False)\<close>.
\<close>

definition Input_from_arrays ::
  "constants \<Rightarrow> ndarray dict \<Rightarrow> ndarray \<Rightarrow> real list option \<Rightarrow> path option \<Rightarrow> string option \<Rightarrow>
   nat \<Rightarrow> scalar_or_array option \<Rightarrow> former_kernel option \<Rightarrow> error + Input" where
  "Input_from_arrays C p rp rv dir nm g kf fk =
     init_common C p rp rv dir nm None None g fk kf False"

text \<open>
  Line 133: the per-particle \<^verbatim>\<open>knorm\<close> becomes its median when the values, divided by
  twice the machine epsilon and rounded, are one and the same integer; \<^verbatim>\<open>np.unique\<close>
  returns the distinct values. \<open>eps\<close> is \<^verbatim>\<open>np.finfo(_knorm.dtype).eps\<close>, a parameter.
\<close>

definition collapse_knorm :: "real \<Rightarrow> real list \<Rightarrow> scalar_or_array" where
  "collapse_knorm eps ks =
     (if length (remdups (map (\<lambda>k. round_half_even (k / (2 * eps))) ks)) = 1
      then Scalar (median ks) else Array ks)"

text \<open>Line 131.\<close>

definition knorm_of :: "nat \<Rightarrow> real list \<Rightarrow> real list" where
  "knorm_of g kf = map (\<lambda>k. k / (sqrt (real g) * cbrt FOURTHIRDPI)) kf"

text \<open>Line 134: \<^verbatim>\<open>(np.sqrt(ngb) * _knorm / _k[h_cubic][:,1])**3\<close>.\<close>

fun former_rho_vel :: "nat \<Rightarrow> scalar_or_array \<Rightarrow> real list \<Rightarrow> error + real list" where
  "former_rho_vel g (Scalar s) col1 = Inr (map (\<lambda>h. (sqrt (real g) * s / h) ^ 3) col1)"
| "former_rho_vel g (Array ks) col1 =
     broadcast2 (\<lambda>k h. (sqrt (real g) * k / h) ^ 3) ks col1"

text \<open>
  The second signature (lines 117-139): \<^verbatim>\<open>Input(pname=..., kname=..., former_kernel=False)\<close>,
  with the keywords of the documented signature only.
  The two files share their directory; the name, \<^verbatim>\<open>_hdim\<close> and \<^verbatim>\<open>ngb\<close> come from the
  file names; the particles and the kernel file are read; \<^verbatim>\<open>rho_vel\<close> is recovered from
  the stored kernels in one of two conventions.
\<close>

definition Input_from_files ::
  "constants \<Rightarrow> real \<Rightarrow> filesystem \<Rightarrow> path \<Rightarrow> path \<Rightarrow> former_kernel option \<Rightarrow> error + Input" where
  "Input_from_files C eps fs pn kn fk =
     (if parent pn \<noteq> parent kn then Inl ValueError
      else
     (case parse_name (path_name pn) of
        Inl e \<Rightarrow> Inl e
      | Inr nm \<Rightarrow>
     (case parse_hdim_ngb nm (path_name kn) of
        Inl e \<Rightarrow> Inl e
      | Inr (hdm, g) \<Rightarrow>
     (case ebf_read fs pn of
        Inl e \<Rightarrow> Inl e
      | Inr p \<Rightarrow>
     (case ebf_read fs kn of
        Inl e \<Rightarrow> Inl e
      | Inr k \<Rightarrow>
     (case getitem k mass_key of
        Inl e \<Rightarrow> Inl e
      | Inr m \<Rightarrow>
     (case getitem k density_key of
        Inl e \<Rightarrow> Inl e
      | Inr dens \<Rightarrow>
     (case getitem k kernels_key of
        Inl e \<Rightarrow> Inl e
      | Inr kern \<Rightarrow>
     (case column kern 0 of
        Inl e \<Rightarrow> Inl e
      | Inr col0 \<Rightarrow>
     (case vector dens of
        Inl e \<Rightarrow> Inl e
      | Inr dv \<Rightarrow>
     (case broadcast2 (\<lambda>h d. h * cbrt (FOURTHIRDPI * d)) col0 dv of
        Inl e \<Rightarrow> Inl e
      | Inr kfac \<Rightarrow>
          (if (case fk of None \<Rightarrow> False | Some f \<Rightarrow> truthy f)
           then
             (let knorm = collapse_knorm eps (knorm_of g kfac)
              in (case column kern 1 of
                    Inl e \<Rightarrow> Inl e
                  | Inr col1 \<Rightarrow>
                 (case former_rho_vel g knorm col1 of
                    Inl e \<Rightarrow> Inl e
                  | Inr rv \<Rightarrow>
                      init_common C p dens (Some rv) (Some (parent pn)) (Some nm)
                        (Some pn) (Some kn) g (Some (FK_dict [(''knorm'', knorm)])) None True)))
           else
             (case column kern 1 of
                Inl e \<Rightarrow> Inl e
              | Inr col1 \<Rightarrow>
             (case broadcast2 (\<lambda>k h. (k / h) ^ 3 / FOURTHIRDPI) kfac col1 of
                Inl e \<Rightarrow> Inl e
              | Inr rv \<Rightarrow>
                  init_common C p dens (Some rv) (Some (parent pn)) (Some nm)
                    (Some pn) (Some kn) g fk (Some (Array kfac)) True))))))))))))))"

subsection \<open>Properties\<close>

text \<open>\<^verbatim>\<open>length\<close> (line 278) raises KeyError without a mass array.\<close>

definition length_Input :: "Input \<Rightarrow> error + nat" where
  "length_Input inp =
     (case getitem (particles inp) mass_key of Inl e \<Rightarrow> Inl e | Inr m \<Rightarrow> Inr (len m))"

text \<open>
  \<^verbatim>\<open>rho\<close> (line 290) is \<^verbatim>\<open>np.vstack([rho_pos, rho_vel]).T\<close>: one row \<open>[rho_pos i, rho_vel i]\<close>
  per particle. Arrays of different lengths raise ValueError. With \<^verbatim>\<open>rho_vel = None\<close>,
  \<^verbatim>\<open>vstack\<close> takes \<^verbatim>\<open>None\<close> as an array of shape \<open>(1, 1)\<close>: it raises ValueError unless
  \<^verbatim>\<open>rho_pos\<close> has one element, and then returns an array of Python objects holding
  \<^verbatim>\<open>None\<close>, here an \<open>ObjectRho\<close>.
\<close>

datatype rho_array = FloatRho "real list list" | ObjectRho "real option list list"

definition rho :: "Input \<Rightarrow> error + rho_array" where
  "rho inp =
     (case vector (rho_pos inp) of
        Inl e \<Rightarrow> Inl e
      | Inr rp \<Rightarrow>
          (case rho_vel inp of
             None \<Rightarrow>
               (if length rp = 1 then Inr (ObjectRho [[Some (rp ! 0), None]])
                else Inl ValueError)
           | Some rv \<Rightarrow>
               (if length rp = length rv then Inr (FloatRho (map2 (\<lambda>a b. [a, b]) rp rv))
                else Inl ValueError)))"

definition hdim :: "Input \<Rightarrow> nat" where
  "hdim inp = (if rho_vel inp = None then 3 else 6)"

text \<open>
  \<^verbatim>\<open>kernels\<close> (line 314) is \<^verbatim>\<open>k_factor / np.cbrt(FOURTHIRDPI * rho)\<close>. Multiplying the
  object array by a float raises TypeError. A scalar \<^verbatim>\<open>k_factor\<close> divides every entry. An
  array \<^verbatim>\<open>k_factor\<close> of shape \<open>(m,)\<close> is broadcast against the shape \<open>(n, 2)\<close> along the
  last axis: \<open>m = 2\<close> pairs its entries with the two columns, \<open>m = 1\<close> repeats the
  entry, and any other \<open>m\<close> raises ValueError. (A zero density gives a division by zero:
  infinity in NumPy, \<open>0\<close> in HOL.)
\<close>

definition kernel_length :: "real \<Rightarrow> real \<Rightarrow> real" where
  "kernel_length k r = k / cbrt (FOURTHIRDPI * r)"

definition kernels :: "Input \<Rightarrow> error + real list list" where
  "kernels inp =
     (case rho inp of
        Inl e \<Rightarrow> Inl e
      | Inr (ObjectRho rows) \<Rightarrow> Inl TypeError
      | Inr (FloatRho rows) \<Rightarrow>
          (case k_factor inp of
             Scalar k \<Rightarrow> Inr (map (map (kernel_length k)) rows)
           | Array ks \<Rightarrow>
               (if length ks = 2 then Inr (map (\<lambda>row. map2 kernel_length ks row) rows)
                else if length ks = 1 then Inr (map (map (kernel_length (ks ! 0))) rows)
                else Inl ValueError)))"

text \<open>
  \<^verbatim>\<open>kname\<close> and \<^verbatim>\<open>pname\<close> (lines 317-326) compute the path on first use and keep it: they
  return the path and the instance.
\<close>

definition kname :: "Input \<Rightarrow> path \<times> Input" where
  "kname inp =
     (case kname_attr inp of
        Some p \<Rightarrow> (p, inp)
      | None \<Rightarrow>
          (let p = joinpath (input_dir inp)
                     (Path_of (name inp @ ''_d'' @ show_nat (hdim inp) @ ''n''
                               @ show_nat (ngb inp) @ ''_den.ebf''))
           in (p, inp\<lparr>kname_attr := Some p\<rparr>)))"

definition pname :: "Input \<Rightarrow> path \<times> Input" where
  "pname inp =
     (case pname_attr inp of
        Some p \<Rightarrow> (p, inp)
      | None \<Rightarrow>
          (let p = joinpath (input_dir inp) (Path_of (name inp @ ''.ebf''))
           in (p, inp\<lparr>pname_attr := Some p\<rparr>)))"

text \<open>
  \<^verbatim>\<open>optional_keys\<close> (line 332): the given keys that are optional keys (a Python set, in no
  particular order).
\<close>

definition optional_keys :: "Input \<Rightarrow> string list" where
  "optional_keys inp = filter (\<lambda>k. k \<in> set optional_keys_in_particles) (keys (particles inp))"

subsection \<open>Writing the files\<close>

text \<open>
  \<^verbatim>\<open>_write_kernels\<close> (lines 361-368). Unless the instance was made from existing files, the
  kernel file is started anew and receives the density, the kernels and the mass. The result
  is the path, the instance (its cached names) and the file system. When an exception
  stops the writing, the model returns the exception alone.
\<close>

definition write_kernels :: "Input \<Rightarrow> filesystem \<Rightarrow> error + path \<times> Input \<times> filesystem" where
  "write_kernels inp fs =
     (let (kn, inp1) = kname inp
      in if \<not> input_files_exist inp1
         then
           (let fs0 = ebf_initialize fs kn
            in (case ebf_write fs0 kn (''/'' @ density_key) (rho_pos inp1) of
                  Inl e \<Rightarrow> Inl e
                | Inr fs1 \<Rightarrow>
               (case kernels inp1 of
                  Inl e \<Rightarrow> Inl e
                | Inr ker \<Rightarrow>
               (case ebf_write fs1 kn (''/'' @ kernels_key) (Arr2 Float64 2 ker) of
                  Inl e \<Rightarrow> Inl e
                | Inr fs2 \<Rightarrow>
               (case getitem (particles inp1) ''mass'' of
                  Inl e \<Rightarrow> Inl e
                | Inr m \<Rightarrow>
               (case ebf_write fs2 kn (''/'' @ mass_key) m of
                  Inl e \<Rightarrow> Inl e
                | Inr fs3 \<Rightarrow> Inr (kn, inp1, fs3)))))))
         else Inr (kn, inp1, fs))"

text \<open>
  \<^verbatim>\<open>_write_particles\<close> (lines 370-378): the two loops. The first writes the array of every
  required key; the second writes, for every optional key, the array when the key is given
  and \<^verbatim>\<open>np.zeros(self.length)\<close> otherwise.
\<close>

fun write_required :: "Input \<Rightarrow> path \<Rightarrow> string list \<Rightarrow> filesystem \<Rightarrow> error + filesystem" where
  "write_required inp pn [] fs = Inr fs"
| "write_required inp pn (key # ks) fs =
     (case getitem (particles inp) key of
        Inl e \<Rightarrow> Inl e
      | Inr a \<Rightarrow>
     (case ebf_write fs pn (''/'' @ key) a of
        Inl e \<Rightarrow> Inl e
      | Inr fs1 \<Rightarrow> write_required inp pn ks fs1))"

fun write_optional :: "Input \<Rightarrow> path \<Rightarrow> string list \<Rightarrow> filesystem \<Rightarrow> error + filesystem" where
  "write_optional inp pn [] fs = Inr fs"
| "write_optional inp pn (key # ks) fs =
     (case (if key \<in> set (keys (particles inp)) then getitem (particles inp) key
            else (case length_Input inp of Inl e \<Rightarrow> Inl e | Inr n \<Rightarrow> Inr (zeros n))) of
        Inl e \<Rightarrow> Inl e
      | Inr a \<Rightarrow>
     (case ebf_write fs pn (''/'' @ key) a of
        Inl e \<Rightarrow> Inl e
      | Inr fs1 \<Rightarrow> write_optional inp pn ks fs1))"

definition write_particles :: "Input \<Rightarrow> filesystem \<Rightarrow> error + path \<times> Input \<times> filesystem" where
  "write_particles inp fs =
     (let (pn, inp1) = pname inp
      in if \<not> input_files_exist inp1
         then
           (case write_required inp1 pn required_keys_in_particles (ebf_initialize fs pn) of
              Inl e \<Rightarrow> Inl e
            | Inr fs1 \<Rightarrow>
           (case write_optional inp1 pn optional_keys_in_particles fs1 of
              Inl e \<Rightarrow> Inl e
            | Inr fs2 \<Rightarrow> Inr (pn, inp1, fs2)))
         else Inr (pn, inp1, fs))"

subsection \<open>The parameter file\<close>

text \<open>
  Of \<^verbatim>\<open>Isochrone\<close> the class uses \<^verbatim>\<open>category\<close> and \<^verbatim>\<open>name\<close>: the names of the parent
  directory and of the directory of the isochrone (Isochrone.py, \<^verbatim>\<open>category\<close> and
  \<^verbatim>\<open>name\<close>).
\<close>

record Isochrone =
  iso_path :: path

definition category :: "Isochrone \<Rightarrow> string" where
  "category isoc = path_name (parent (iso_path isoc))"

definition iso_name :: "Isochrone \<Rightarrow> string" where
  "iso_name isoc = path_name (iso_path isoc)"

text \<open>\<^verbatim>\<open>d.update(m)\<close>: the entries of \<open>m\<close> are stored into \<open>d\<close> one after the other.\<close>

definition dict_update :: "'v dict \<Rightarrow> 'v dict \<Rightarrow> 'v dict" where
  "dict_update d m = foldl (\<lambda>acc (k, v). setitem acc k v) d m"

text \<open>\<^verbatim>\<open>kwargs.pop(key, default)\<close>: the value and the dictionary without the key.\<close>

definition dict_pop :: "'v dict \<Rightarrow> string \<Rightarrow> 'v \<Rightarrow> 'v \<times> 'v dict" where
  "dict_pop d k dflt =
     (case map_of d k of None \<Rightarrow> (dflt, d) | Some v \<Rightarrow> (v, AList.delete k d))"

text \<open>\<^verbatim>\<open>pathlib.Path(v)\<close> of a keyword value: a string or a path, TypeError otherwise.\<close>

fun path_of_pval :: "pval \<Rightarrow> error + path" where
  "path_of_pval (PStr s) = Inr (Path_of s)"
| "path_of_pval (PPath p) = Inr p"
| "path_of_pval v = Inl TypeError"

text \<open>
  The four mandatory fields, as the dictionary display of line 357 builds them.
\<close>

definition mandatory_fields :: "constants \<Rightarrow> Input \<Rightarrow> Isochrone \<Rightarrow> pval \<Rightarrow> pval dict" where
  "mandatory_fields C inp isoc cmd_magnames =
     dict_update []
       [(TTAGS_photo_categ C, PStr (category isoc)),
        (TTAGS_photo_sys C, PStr (iso_name isoc)),
        (TTAGS_mag_color_names C, cmd_magnames),
        (TTAGS_nres C, PInt (int (ngb inp)))]"

text \<open>
  \<^verbatim>\<open>_write_parameter_file\<close> (lines 352-359). The call
  \<^verbatim>\<open>for_parfile.update(**{...}, **kwargs)\<close> unpacks the four mandatory fields and the
  caller's keywords into one list of keyword arguments: Python raises TypeError (multiple
  values for a keyword argument) when a caller's keyword is one of the four.
\<close>

definition write_parameter_file ::
  "constants \<Rightarrow> Input \<Rightarrow> Isochrone \<Rightarrow> pval \<Rightarrow> pval dict \<Rightarrow> filesystem \<Rightarrow>
   error + (path \<times> pval dict) \<times> filesystem" where
  "write_parameter_file C inp isoc cmd_magnames kwargs fs =
     (let (pf, kwargs1) = dict_pop kwargs ''parfile'' (PPath (DEFAULT_PARFILE C))
      in (case path_of_pval pf of
            Inl e \<Rightarrow> Inl e
          | Inr parfile0 \<Rightarrow>
              (let parfile = (if \<not> is_absolute parfile0 then joinpath (input_dir inp) parfile0
                              else parfile0);
                   mandatory = mandatory_fields C inp isoc cmd_magnames
               in if \<exists>k \<in> set (keys kwargs1). k \<in> set (keys mandatory) then Inl TypeError
                  else
                    (let for_parfile = dict_update (DEFAULTS_FOR_PARFILE C) (mandatory @ kwargs1)
                     in (case PARFILE_TEMPLATE_substitute C for_parfile of
                           Inl e \<Rightarrow> Inl e
                         | Inr txt \<Rightarrow>
                             Inr ((parfile, for_parfile), fs(parfile \<mapsto> TextFile txt)))))))"

subsection \<open>Predicates of the statements\<close>

text \<open>
  \<open>schema_ok\<close>: the given keys cover the required keys and are required or optional
  keys. \<open>fill_defaults p m\<close>: the particles after the two defaults, for the mass array
  \<open>m\<close>.
\<close>

definition schema_ok :: "ndarray dict \<Rightarrow> bool" where
  "schema_ok p \<longleftrightarrow> set required_keys_in_particles \<subseteq> set (keys p) \<and>
     set (keys p) \<subseteq> set required_keys_in_particles \<union> set optional_keys_in_particles"

definition fill_defaults :: "ndarray dict \<Rightarrow> ndarray \<Rightarrow> ndarray dict" where
  "fill_defaults p m =
     (let p1 = (if parentid_key \<notin> set (keys p) then setitem p parentid_key (arange (len m))
                else p)
      in if dform_key \<notin> set (keys p1) then setitem p1 dform_key (zero_times m) else p1)"

text \<open>
  \<open>former_flag\<close>: the keyword \<^verbatim>\<open>former_kernel\<close> is given and true.
\<close>

definition former_flag :: "former_kernel option \<Rightarrow> bool" where
  "former_flag fk = (case fk of None \<Rightarrow> False | Some f \<Rightarrow> truthy f)"


text \<open>
  \<open>optional_value inp n k\<close>: what the second loop of \<^verbatim>\<open>_write_particles\<close> writes for
  the key \<open>k\<close>, with \<open>n\<close> particles. \<open>mandatory_keys\<close>: the names of the four
  mandatory fields of the parameter file.
\<close>

definition optional_value :: "Input \<Rightarrow> nat \<Rightarrow> string \<Rightarrow> ndarray" where
  "optional_value inp n k =
     (case map_of (particles inp) k of Some a \<Rightarrow> a | None \<Rightarrow> Arr1 Float64 (replicate n 0))"

definition mandatory_keys :: "constants \<Rightarrow> string set" where
  "mandatory_keys C =
     {TTAGS_photo_categ C, TTAGS_photo_sys C, TTAGS_mag_color_names C, TTAGS_nres C}"

subsection \<open>Example inputs\<close>

text \<open>
  Constants, three particles with their densities, and the instance the constructor makes
  of them.
\<close>

definition example_constants :: constants where
  "example_constants =
     \<lparr>GALAXIA_TMP = Path True [''tmp''], DEFAULT_PARFILE = Path False [''galaxia_param''],
      DEFAULTS_FOR_PARFILE = [(''nres'', PInt 64), (''seed'', PInt 17)],
      TTAGS_photo_categ = ''photo_categ'', TTAGS_photo_sys = ''photo_sys'',
      TTAGS_mag_color_names = ''mag_color_names'', TTAGS_nres = ''nres'',
      PARFILE_TEMPLATE_substitute = (\<lambda>d. Inr (concat (keys d)))\<rparr>"

definition example_particles :: "ndarray dict" where
  "example_particles =
     [(''pos3'', Arr2 Float64 3 [[0, 0, 0], [1, 1, 1], [2, 2, 2]]),
      (''vel3'', Arr2 Float64 3 [[0, 0, 0], [0, 0, 0], [0, 0, 0]]),
      (''mass'', Arr1 Float32 [5, 6, 7]),
      (''age'', Arr1 Float64 [9, 9, 9]),
      (''feh'', Arr1 Float64 [0, 0, 0])]"

definition example_rho_pos :: ndarray where
  "example_rho_pos = Arr1 Float64 [1, 2, 3]"

definition example_rho_vel :: "real list" where
  "example_rho_vel = [4, 5, 6]"

definition example_input :: Input where
  "example_input =
     \<lparr>particles = example_particles @
        [(''parentid'', Arr1 Int64 [0, 1, 2]), (''dform'', Arr1 Float32 [0, 0, 0])],
      rho_pos = example_rho_pos, rho_vel = Some example_rho_vel,
      input_dir = Path True [''tmp''], name = ''sim'', pname_attr = None, kname_attr = None,
      ngb = 64, k_factor = Scalar 1, input_files_exist = False\<rparr>"

definition no_files :: filesystem where
  "no_files = Map.empty"

definition example_isochrone :: Isochrone where
  "example_isochrone = \<lparr>iso_path = Path True [''isochrones'', ''padova'', ''WFIRST'']\<rparr>"

text \<open>
  The example without its mass, with a key that is not a property, with a short age.
\<close>

definition particles_no_mass :: "ndarray dict" where
  "particles_no_mass = filter (\<lambda>(k, a). k \<noteq> ''mass'') example_particles"

definition particles_extra_key :: "ndarray dict" where
  "particles_extra_key = example_particles @ [(''colour'', Arr1 Float64 [1, 2, 3])]"

definition particles_short_age :: "ndarray dict" where
  "particles_short_age = setitem example_particles ''age'' (Arr1 Float64 [9, 9])"

text \<open>
  A directory with the particle file of the example and a kernel file under two names;
  another with a kernel file whose normalisations all agree.
\<close>

definition example_kernel_file :: "ndarray dict" where
  "example_kernel_file =
     [(''/density'', Arr1 Float64 [1, 2, 3]),
      (''/h_cubic'', Arr2 Float64 2 [[1, 2], [1, 2], [1, 2]]),
      (''/mass'', Arr1 Float32 [5, 6, 7])]"

definition example_particle_file :: "ndarray dict" where
  "example_particle_file = map (\<lambda>(k, a). (''/'' @ k, a)) example_particles"

definition example_pname :: path where
  "example_pname = Path True [''data'', ''sim.ebf'']"

definition example_kname :: path where
  "example_kname = Path True [''data'', ''sim_d6n64_den.ebf'']"

definition example_kname_d3 :: path where
  "example_kname_d3 = Path True [''data'', ''sim_d3n64_den.ebf'']"

definition example_fs :: filesystem where
  "example_fs =
     Map.empty(example_pname \<mapsto> EbfFile example_particle_file,
               example_kname \<mapsto> EbfFile example_kernel_file,
               example_kname_d3 \<mapsto> EbfFile example_kernel_file)"



text \<open>
  The paths and the files that the writers make of the example instance.
\<close>

definition roundtrip_kname :: path where
  "roundtrip_kname = Path True [''tmp'', ''sim_d6n64_den.ebf'']"

definition roundtrip_pname :: path where
  "roundtrip_pname = Path True [''tmp'', ''sim.ebf'']"

definition roundtrip_kernels :: "real list list" where
  "roundtrip_kernels =
     [[kernel_length 1 1, kernel_length 1 4], [kernel_length 1 2, kernel_length 1 5],
      [kernel_length 1 3, kernel_length 1 6]]"

definition roundtrip_kernel_file :: "ndarray dict" where
  "roundtrip_kernel_file =
     [(''/density'', Arr1 Float64 [1, 2, 3]),
      (''/h_cubic'', Arr2 Float64 2 roundtrip_kernels),
      (''/mass'', Arr1 Float32 [5, 6, 7])]"

definition roundtrip_particle_file :: "ndarray dict" where
  "roundtrip_particle_file =
     [(''/pos3'', Arr2 Float64 3 [[0, 0, 0], [1, 1, 1], [2, 2, 2]]),
      (''/vel3'', Arr2 Float64 3 [[0, 0, 0], [0, 0, 0], [0, 0, 0]]),
      (''/mass'', Arr1 Float32 [5, 6, 7]),
      (''/age'', Arr1 Float64 [9, 9, 9]),
      (''/feh'', Arr1 Float64 [0, 0, 0]),
      (''/parentid'', Arr1 Int64 [0, 1, 2]),
      (''/id'', Arr1 Float64 [0, 0, 0]),
      (''/dform'', Arr1 Float32 [0, 0, 0]),
      (''/helium'', Arr1 Float64 [0, 0, 0]),
      (''/carbon'', Arr1 Float64 [0, 0, 0]),
      (''/nitrogen'', Arr1 Float64 [0, 0, 0]),
      (''/oxygen'', Arr1 Float64 [0, 0, 0]),
      (''/neon'', Arr1 Float64 [0, 0, 0]),
      (''/magnesium'', Arr1 Float64 [0, 0, 0]),
      (''/silicon'', Arr1 Float64 [0, 0, 0]),
      (''/sulphur'', Arr1 Float64 [0, 0, 0]),
      (''/calcium'', Arr1 Float64 [0, 0, 0]),
      (''/alpha'', Arr1 Float64 [0, 0, 0])]"

definition roundtrip_fs :: filesystem where
  "roundtrip_fs =
     [roundtrip_kname \<mapsto> EbfFile roundtrip_kernel_file,
      roundtrip_pname \<mapsto> EbfFile roundtrip_particle_file]"

section \<open>Properties of the model\<close>

subsection \<open>Verification of the particles\<close>

lemma verify_particles_eq:
  "verify_particles p =
     (if \<not> schema_ok p then Inl SchemaError
      else case map_of p mass_key of
        None \<Rightarrow> Inl (KeyError mass_key)
      | Some m \<Rightarrow>
          (let bad = map fst (filter (\<lambda>(k, a). len a \<noteq> len m) p)
           in if bad = [] then Inr (fill_defaults p m) else Inl (LengthMismatchError bad)))"
  unfolding verify_particles_def compare_given_and_required_def
    confirm_equal_length_arrays_in_dict_def getitem_def schema_ok_def fill_defaults_def
  by (simp add: Let_def setitem_def keys_def update_conv' mass_key_def parentid_key_def
       dform_key_def split: option.splits)

lemma Input_from_arrays_error:
  "verify_particles p = Inl e \<Longrightarrow> Input_from_arrays C p rp rv dir nm g kf fk = Inl e"
  by (simp add: Input_from_arrays_def init_common_def)

lemma required_keys_explicit:
  "set required_keys_in_particles = {''pos3'', ''vel3'', ''mass'', ''age'', ''feh''}"
  by (auto simp: required_keys_in_particles_def pos_key_def vel_key_def mass_key_def
      age_key_def feh_key_def)

lemma optional_keys_explicit:
  "set optional_keys_in_particles =
     {''parentid'', ''id'', ''dform'', ''helium'', ''carbon'', ''nitrogen'', ''oxygen'',
      ''neon'', ''magnesium'', ''silicon'', ''sulphur'', ''calcium'', ''alpha''}"
  by (auto simp: optional_keys_in_particles_def parentid_key_def pop_id_key_def dform_key_def)


lemma map_of_fill_defaults:
  "map_of (fill_defaults p m) =
     (\<lambda>k. if k = ''dform'' \<and> ''dform'' \<notin> set (keys p) then Some (zero_times m)
          else if k = ''parentid'' \<and> ''parentid'' \<notin> set (keys p) then Some (arange (len m))
          else map_of p k)"
  by (rule ext)
     (simp add: fill_defaults_def Let_def setitem_def keys_def update_conv' dom_update
        parentid_key_def dform_key_def)

lemma in_keys_iff: "k \<in> set (keys d) \<longleftrightarrow> map_of d k \<noteq> None"
  by (simp add: keys_def map_of_eq_None_iff)

lemma in_keys_fill_defaults:
  "k \<in> set (keys p) \<Longrightarrow> map_of (fill_defaults p m) k \<noteq> None"
  by (auto simp: map_of_fill_defaults in_keys_iff)

lemma init_common_particles:
  "init_common C p rp rv dir nm pn kn g fk kf fe = Inr inp \<Longrightarrow>
     \<exists>m. schema_ok p \<and> map_of p ''mass'' = Some m \<and> (\<forall>(k, a) \<in> set p. len a = len m)
        \<and> particles inp = fill_defaults p m"
  by (auto simp: init_common_def verify_particles_eq Let_def mass_key_def filter_empty_conv
      split: sum.splits if_splits option.splits)

lemma init_common_fields:
  assumes "init_common C p rp rv dir nm pn kn g fk kf fe = Inr inp"
  shows "rho_pos inp = rp" "rho_vel inp = rv" "pname_attr inp = pn" "kname_attr inp = kn"
    "ngb inp = g" "input_files_exist inp = fe"
    "name inp = (case nm of None \<Rightarrow> ''sim'' | Some n \<Rightarrow> n)"
    "input_dir inp = (case dir of None \<Rightarrow> GALAXIA_TMP C | Some d \<Rightarrow> d)"
    "kf = Some k \<Longrightarrow> k_factor inp = k"
  using assms
  by (auto simp: init_common_def Let_def split: sum.splits)

lemma init_common_success:
  "verify_particles p = Inr p' \<Longrightarrow>
   \<exists>inp. init_common C p rp rv dir nm pn kn g fk kf fe = Inr inp \<and> particles inp = p'"
  by (simp add: init_common_def Let_def)


lemma Input_from_arrays_Inr:
  assumes "Input_from_arrays C p rp rv dir nm g kf fk = Inr inp"
  shows "\<exists>m. schema_ok p \<and> map_of p ''mass'' = Some m \<and> particles inp = fill_defaults p m
     \<and> length_Input inp = Inr (len m)"
    "\<not> input_files_exist inp" "pname_attr inp = None" "kname_attr inp = None"
    "rho_pos inp = rp" "rho_vel inp = rv" "ngb inp = g"
proof -
  have ic: "init_common C p rp rv dir nm None None g fk kf False = Inr inp"
    using assms by (simp add: Input_from_arrays_def)
  from init_common_particles [OF ic] obtain m where
    m: "schema_ok p" "map_of p ''mass'' = Some m" "particles inp = fill_defaults p m"
    by blast
  then have "length_Input inp = Inr (len m)"
    by (simp add: length_Input_def getitem_def map_of_fill_defaults mass_key_def)
  with m show "\<exists>m. schema_ok p \<and> map_of p ''mass'' = Some m \<and> particles inp = fill_defaults p m
     \<and> length_Input inp = Inr (len m)" by blast
  from init_common_fields [OF ic]
  show "\<not> input_files_exist inp" "pname_attr inp = None" "kname_attr inp = None"
    "rho_pos inp = rp" "rho_vel inp = rv" "ngb inp = g"
    by simp_all
qed

lemmas key_defs =
  required_keys_in_particles_def optional_keys_in_particles_def pos_key_def
  vel_key_def mass_key_def age_key_def feh_key_def parentid_key_def pop_id_key_def
  dform_key_def kernels_key_def density_key_def

lemmas example_defs =
  example_particles_def example_constants_def example_rho_pos_def example_rho_vel_def

lemma example_verify:
  "verify_particles example_particles = Inr (example_particles @
          [(''parentid'', Arr1 Int64 [0, 1, 2]), (''dform'', Arr1 Float32 [0, 0, 0])])"
  by (simp add: verify_particles_eq schema_ok_def
      fill_defaults_def example_particles_def keys_def setitem_def
      key_defs arange_def upt_rec)

lemma example_Input:
  "Input_from_arrays example_constants example_particles example_rho_pos (Some example_rho_vel)
     None None 64 None None =
   Inr \<lparr>particles = example_particles @
          [(''parentid'', Arr1 Int64 [0, 1, 2]), (''dform'', Arr1 Float32 [0, 0, 0])],
        rho_pos = example_rho_pos, rho_vel = Some example_rho_vel,
        input_dir = Path True [''tmp''], name = ''sim'', pname_attr = None, kname_attr = None,
        ngb = 64, k_factor = Scalar 1, input_files_exist = False\<rparr>"
  by (simp add: Input_from_arrays_def init_common_def verify_particles_eq schema_ok_def
      fill_defaults_def example_particles_def example_constants_def keys_def setitem_def
      key_defs arange_def upt_rec)

lemma example_input_constructed:
  "Input_from_arrays example_constants example_particles example_rho_pos (Some example_rho_vel)
     None None 64 None None = Inr example_input"
  by (simp add: example_Input example_input_def)

lemma example_input_fields:
  "rho_pos example_input = Arr1 Float64 [1, 2, 3]" "rho_vel example_input = Some [4, 5, 6]"
  "\<not> input_files_exist example_input" "pname_attr example_input = None"
  "input_dir example_input = Path True [''tmp'']" "name example_input = ''sim''"
  "k_factor example_input = Scalar 1"
  "getitem (particles example_input) ''mass'' = Inr (Arr1 Float32 [5, 6, 7])"
  by (simp_all add: example_input_def example_rho_pos_def example_rho_vel_def getitem_def
      example_particles_def)

text \<open>
  C4. The constructor from arrays validates at once. A mapping that lacks one of the
  required keys \<open>pos3\<close>, \<open>vel3\<close>, \<open>mass\<close>, \<open>age\<close>, \<open>feh\<close> is refused with
  SchemaError, and so is a mapping with a key that is neither required nor optional. A
  mapping with the right keys in which some array is not as long as the mass array is
  refused with a LengthMismatchError that lists the keys of exactly those arrays. (The
  keys are checked first, so the third case is about a mapping whose keys are right.)
\<close>

theorem C4_eager_validation:
  "(\<not> {''pos3'', ''vel3'', ''mass'', ''age'', ''feh''} \<subseteq> set (keys p) \<longrightarrow>
      Input_from_arrays C p rp rv dir nm g kf fk = Inl SchemaError)
   \<and> (\<not> set (keys p) \<subseteq> {''pos3'', ''vel3'', ''mass'', ''age'', ''feh''} \<union>
          {''parentid'', ''id'', ''dform'', ''helium'', ''carbon'', ''nitrogen'', ''oxygen'',
           ''neon'', ''magnesium'', ''silicon'', ''sulphur'', ''calcium'', ''alpha''} \<longrightarrow>
      Input_from_arrays C p rp rv dir nm g kf fk = Inl SchemaError)
   \<and> (schema_ok p \<and> map_of p ''mass'' = Some m \<and> (\<exists>(k, a) \<in> set p. len a \<noteq> len m) \<longrightarrow>
      Input_from_arrays C p rp rv dir nm g kf fk =
        Inl (LengthMismatchError (map fst (filter (\<lambda>(k, a). len a \<noteq> len m) p)))
      \<and> set (map fst (filter (\<lambda>(k, a). len a \<noteq> len m) p)) =
          {k. \<exists>a. (k, a) \<in> set p \<and> len a \<noteq> len m}
      \<and> map fst (filter (\<lambda>(k, a). len a \<noteq> len m) p) \<noteq> [])"
proof (intro conjI impI)
  assume "\<not> {''pos3'', ''vel3'', ''mass'', ''age'', ''feh''} \<subseteq> set (keys p)"
  then have "\<not> schema_ok p"
    unfolding schema_ok_def required_keys_explicit by blast
  then show "Input_from_arrays C p rp rv dir nm g kf fk = Inl SchemaError"
    by (simp add: Input_from_arrays_error verify_particles_eq)
next
  assume "\<not> set (keys p) \<subseteq> {''pos3'', ''vel3'', ''mass'', ''age'', ''feh''} \<union>
          {''parentid'', ''id'', ''dform'', ''helium'', ''carbon'', ''nitrogen'', ''oxygen'',
           ''neon'', ''magnesium'', ''silicon'', ''sulphur'', ''calcium'', ''alpha''}"
  then have "\<not> schema_ok p"
    unfolding schema_ok_def required_keys_explicit optional_keys_explicit by blast
  then show "Input_from_arrays C p rp rv dir nm g kf fk = Inl SchemaError"
    by (simp add: Input_from_arrays_error verify_particles_eq)
next
  assume a: "schema_ok p \<and> map_of p ''mass'' = Some m \<and> (\<exists>(k, a) \<in> set p. len a \<noteq> len m)"
  let ?bad = "map fst (filter (\<lambda>(k, a). len a \<noteq> len m) p)"
  from a have ne: "?bad \<noteq> []"
    by (auto simp: filter_empty_conv)
  from a ne have "verify_particles p = Inl (LengthMismatchError ?bad)"
    by (simp add: verify_particles_eq mass_key_def Let_def)
  then show "Input_from_arrays C p rp rv dir nm g kf fk = Inl (LengthMismatchError ?bad)"
    by (rule Input_from_arrays_error)
  show "set ?bad = {k. \<exists>a. (k, a) \<in> set p \<and> len a \<noteq> len m}"
    by force
  show "?bad \<noteq> []" by (rule ne)
qed

theorem C4_eager_validation_witness:
  "Input_from_arrays example_constants particles_no_mass example_rho_pos None None None 64
     None None = Inl SchemaError
   \<and> Input_from_arrays example_constants particles_extra_key example_rho_pos None None None 64
     None None = Inl SchemaError
   \<and> Input_from_arrays example_constants particles_short_age example_rho_pos None None None 64
     None None = Inl (LengthMismatchError [''age''])"
proof -
  have h1: "\<not> {''pos3'', ''vel3'', ''mass'', ''age'', ''feh''} \<subseteq> set (keys particles_no_mass)"
    by (simp add: particles_no_mass_def example_particles_def keys_def)
  have h2: "\<not> set (keys particles_extra_key) \<subseteq> {''pos3'', ''vel3'', ''mass'', ''age'', ''feh''} \<union>
          {''parentid'', ''id'', ''dform'', ''helium'', ''carbon'', ''nitrogen'', ''oxygen'',
           ''neon'', ''magnesium'', ''silicon'', ''sulphur'', ''calcium'', ''alpha''}"
    by (simp add: particles_extra_key_def example_particles_def keys_def)
  have h3: "schema_ok particles_short_age
      \<and> map_of particles_short_age ''mass'' = Some (Arr1 Float32 [5, 6, 7])
      \<and> (\<exists>(k, a) \<in> set particles_short_age. len a \<noteq> len (Arr1 Float32 [5, 6, 7]))"
    by (simp add: particles_short_age_def example_particles_def keys_def setitem_def
        schema_ok_def key_defs)
  have e3: "map fst (filter (\<lambda>(k, a). len a \<noteq> len (Arr1 Float32 [5, 6, 7]))
              particles_short_age) = [''age'']"
    by (simp add: particles_short_age_def example_particles_def setitem_def)
  have c1: "Input_from_arrays example_constants particles_no_mass example_rho_pos None None
      None 64 None None = Inl SchemaError"
    by (rule C4_eager_validation [THEN conjunct1, THEN mp, OF h1])
  have c2: "Input_from_arrays example_constants particles_extra_key example_rho_pos None None
      None 64 None None = Inl SchemaError"
    by (rule C4_eager_validation [THEN conjunct2, THEN conjunct1, THEN mp, OF h2])
  have c3: "Input_from_arrays example_constants particles_short_age example_rho_pos None None
      None 64 None None = Inl (LengthMismatchError [''age''])"
    using C4_eager_validation [THEN conjunct2, THEN conjunct2, THEN mp, OF h3,
        of example_constants example_rho_pos None None None 64 None None]
    unfolding e3 by (rule conjunct1)
  from c1 c2 c3 show ?thesis by simp
qed



subsection \<open>The file names\<close>

lemma parse_sim: "parse_name ''sim.ebf'' = Inr ''sim''"
  by code_simp

lemma parse_sim_d6n64: "parse_hdim_ngb ''sim'' ''sim_d6n64_den.ebf'' = Inr (6, 64)"
  by code_simp

lemma parse_sim_d3n64: "parse_hdim_ngb ''sim'' ''sim_d3n64_den.ebf'' = Inr (3, 64)"
  by code_simp











subsection \<open>Construction from files\<close>

lemma Input_from_files_Inr:
  assumes "Input_from_files C eps fs pn kn fk = Inr inp"
  shows "\<exists>nm hdm g p k m dens kern col0 col1 dv kfac rv.
     parent pn = parent kn \<and> parse_name (path_name pn) = Inr nm
     \<and> parse_hdim_ngb nm (path_name kn) = Inr (hdm, g)
     \<and> ebf_read fs pn = Inr p \<and> ebf_read fs kn = Inr k
     \<and> getitem k mass_key = Inr m \<and> getitem k density_key = Inr dens
     \<and> getitem k kernels_key = Inr kern \<and> column kern 0 = Inr col0
     \<and> column kern 1 = Inr col1 \<and> vector dens = Inr dv
     \<and> broadcast2 (\<lambda>h d. h * cbrt (FOURTHIRDPI * d)) col0 dv = Inr kfac
     \<and> (if former_flag fk
        then former_rho_vel g (collapse_knorm eps (knorm_of g kfac)) col1 = Inr rv
           \<and> init_common C p dens (Some rv) (Some (parent pn)) (Some nm) (Some pn) (Some kn) g
               (Some (FK_dict [(''knorm'', collapse_knorm eps (knorm_of g kfac))])) None True
             = Inr inp
        else broadcast2 (\<lambda>k h. (k / h) ^ 3 / FOURTHIRDPI) kfac col1 = Inr rv
           \<and> init_common C p dens (Some rv) (Some (parent pn)) (Some nm) (Some pn) (Some kn) g
               fk (Some (Array kfac)) True = Inr inp)"
  using assms
  unfolding Input_from_files_def former_flag_def
  by (simp add: Let_def split: sum.splits if_splits prod.splits)

lemma Input_from_files_fields:
  assumes "Input_from_files C eps fs pn kn fk = Inr inp"
  shows "pname_attr inp = Some pn" "kname_attr inp = Some kn" "input_files_exist inp"
    "rho_vel inp \<noteq> None" "input_dir inp = parent pn"
  using Input_from_files_Inr [OF assms]
  by (auto split: if_splits dest: init_common_fields)



lemma ebf_read_tags:
  "map ((\<lambda>(tag, a). (drop (Suc 0) tag, a)) \<circ> (\<lambda>(k, a). (CHR ''/'' # k, a))) d = d"
  by (induction d) auto

lemma length_knorm_of: "length (knorm_of g kf) = length kf"
  by (simp add: knorm_of_def)

lemma former_rho_vel_success:
  "length col1 = length kfac \<Longrightarrow>
   \<exists>rv. former_rho_vel g (collapse_knorm eps (knorm_of g kfac)) col1 = Inr rv
      \<and> length rv = length col1"
  by (simp add: collapse_knorm_def broadcast2_def length_knorm_of)

lemma Input_from_files_success:
  assumes "parent pn = parent kn" "parse_name (path_name pn) = Inr nm"
    "parse_hdim_ngb nm (path_name kn) = Inr (hdm, g)"
    "ebf_read fs pn = Inr p" "ebf_read fs kn = Inr k"
    "map_of k ''mass'' = Some m" "map_of k ''density'' = Some (Arr1 t dv)"
    "map_of k ''h_cubic'' = Some (Arr2 t' 2 rows)" "length rows = length dv"
    "verify_particles p = Inr p'"
  shows "\<exists>inp. Input_from_files C eps fs pn kn fk = Inr inp \<and> particles inp = p'"
proof -
  let ?col0 = "map (\<lambda>r. r ! 0) rows" and ?col1 = "map (\<lambda>r. r ! 1) rows"
  let ?kfac = "map2 (\<lambda>h d. h * cbrt (FOURTHIRDPI * d)) ?col0 dv"
  have kf: "broadcast2 (\<lambda>h d. h * cbrt (FOURTHIRDPI * d)) ?col0 dv = Inr ?kfac"
    using assms(9) by (simp add: broadcast2_def)
  have len: "length ?col1 = length ?kfac"
    using assms(9) by simp
  from former_rho_vel_success [OF len] obtain rv1 where
    rv1: "former_rho_vel g (collapse_knorm eps (knorm_of g ?kfac)) ?col1 = Inr rv1"
    by blast
  have rv2: "broadcast2 (\<lambda>k h. (k / h) ^ 3 / FOURTHIRDPI) ?kfac ?col1 =
      Inr (map2 (\<lambda>k h. (k / h) ^ 3 / FOURTHIRDPI) ?kfac ?col1)"
    using assms(9) by (simp add: broadcast2_def)
  show ?thesis
    unfolding Input_from_files_def
    using assms(1-8) kf rv1 rv2
    by (simp add: getitem_def key_defs Let_def init_common_success [OF assms(10)])
qed

lemma Input_from_files_current:
  assumes "parent pn = parent kn" "parse_name (path_name pn) = Inr nm"
    "parse_hdim_ngb nm (path_name kn) = Inr (hdm, g)"
    "ebf_read fs pn = Inr p" "ebf_read fs kn = Inr k"
    "map_of k ''mass'' = Some m" "map_of k ''density'' = Some (Arr1 t dv)"
    "map_of k ''h_cubic'' = Some (Arr2 t' 2 rows)" "length rows = length dv"
    "\<not> former_flag fk"
  shows "Input_from_files C eps fs pn kn fk =
     init_common C p (Arr1 t dv)
       (Some (map2 (\<lambda>k h. (k / h) ^ 3 / FOURTHIRDPI)
                (map2 (\<lambda>h d. h * cbrt (FOURTHIRDPI * d)) (map (\<lambda>r. r ! 0) rows) dv)
                (map (\<lambda>r. r ! 1) rows)))
       (Some (parent pn)) (Some nm) (Some pn) (Some kn) g fk
       (Some (Array (map2 (\<lambda>h d. h * cbrt (FOURTHIRDPI * d)) (map (\<lambda>r. r ! 0) rows) dv)))
       True"
  unfolding Input_from_files_def
  using assms
  by (simp add: getitem_def key_defs broadcast2_def former_flag_def)

lemmas example_file_defs = example_fs_def example_pname_def example_kname_def example_kname_d3_def
  example_kernel_file_def example_particle_file_def

lemma example_from_files:
  "\<exists>inp. Input_from_files example_constants eps example_fs example_pname example_kname fk = Inr inp"
proof -
  have "\<exists>inp. Input_from_files example_constants eps example_fs example_pname example_kname fk = Inr inp
     \<and> particles inp = example_particles @
          [(''parentid'', Arr1 Int64 [0, 1, 2]), (''dform'', Arr1 Float32 [0, 0, 0])]"
    by (rule Input_from_files_success [where nm = "''sim''" and hdm = 6 and g = 64
          and p = example_particles and m = "Arr1 Float32 [5, 6, 7]" and t = Float64
          and dv = "[1, 2, 3]" and t' = Float64 and rows = "[[1, 2], [1, 2], [1, 2]]"
          and k = "[(''density'', Arr1 Float64 [1, 2, 3]),
                    (''h_cubic'', Arr2 Float64 2 [[1, 2], [1, 2], [1, 2]]),
                    (''mass'', Arr1 Float32 [5, 6, 7])]"])
       (simp_all add: example_file_defs parent_def path_name_def parse_sim parse_sim_d6n64
          ebf_read_def ebf_read_tags example_verify)
  then show ?thesis by blast
qed

lemma example_from_files_d3:
  "\<exists>inp. Input_from_files example_constants eps example_fs example_pname example_kname_d3 fk = Inr inp"
proof -
  have "\<exists>inp. Input_from_files example_constants eps example_fs example_pname example_kname_d3 fk = Inr inp
     \<and> particles inp = example_particles @
          [(''parentid'', Arr1 Int64 [0, 1, 2]), (''dform'', Arr1 Float32 [0, 0, 0])]"
    by (rule Input_from_files_success [where nm = "''sim''" and hdm = 3 and g = 64
          and p = example_particles and m = "Arr1 Float32 [5, 6, 7]" and t = Float64
          and dv = "[1, 2, 3]" and t' = Float64 and rows = "[[1, 2], [1, 2], [1, 2]]"
          and k = "[(''density'', Arr1 Float64 [1, 2, 3]),
                    (''h_cubic'', Arr2 Float64 2 [[1, 2], [1, 2], [1, 2]]),
                    (''mass'', Arr1 Float32 [5, 6, 7])]"])
       (simp_all add: example_file_defs parent_def path_name_def parse_sim parse_sim_d3n64
          ebf_read_def ebf_read_tags example_verify)
  then show ?thesis by blast
qed



text \<open>
  C9. For an instance made from existing files, writing the kernels and writing the particles
  return the paths the instance was made from, and leave the file system and the instance as
  they were.
\<close>

theorem C9_no_write_from_files:
  assumes "Input_from_files C eps fs pn kn fk = Inr inp"
  shows "write_kernels inp fs' = Inr (kn, inp, fs') \<and> write_particles inp fs' = Inr (pn, inp, fs')"
  using Input_from_files_fields [OF assms]
  by (simp add: write_kernels_def write_particles_def kname_def pname_def)

theorem C9_no_write_from_files_witness:
  "\<exists>inp. Input_from_files example_constants (1 / 2 ^ 52) example_fs example_pname example_kname
            None = Inr inp
     \<and> write_kernels inp Map.empty = Inr (example_kname, inp, Map.empty)
     \<and> write_particles inp Map.empty = Inr (example_pname, inp, Map.empty)"
proof -
  obtain inp where
    ok: "Input_from_files example_constants (1 / 2 ^ 52) example_fs example_pname example_kname
           None = Inr inp"
    using example_from_files by blast
  from C9_no_write_from_files [OF ok, of Map.empty] ok show ?thesis by blast
qed

text \<open>
  C10. An instance made from existing files always holds a velocity density, so its
  \<open>hdim\<close> is \<open>6\<close>, whatever digit the kernel file name declares.
\<close>

theorem C10_hdim_from_files:
  assumes "Input_from_files C eps fs pn kn fk = Inr inp"
  shows "hdim inp = 6 \<and> rho_vel inp \<noteq> None"
  using Input_from_files_fields [OF assms]
  by (simp add: hdim_def)

theorem C10_hdim_from_files_witness:
  "\<exists>inp. Input_from_files example_constants (1 / 2 ^ 52) example_fs example_pname example_kname_d3
            None = Inr inp
     \<and> parse_hdim_ngb ''sim'' (path_name example_kname_d3) = Inr (3, 64)
     \<and> hdim inp = 6 \<and> rho_vel inp \<noteq> None"
proof -
  obtain inp where
    ok: "Input_from_files example_constants (1 / 2 ^ 52) example_fs example_pname example_kname_d3
           None = Inr inp"
    using example_from_files_d3 by blast
  have "parse_hdim_ngb ''sim'' (path_name example_kname_d3) = Inr (3, 64)"
    by (simp add: path_name_def example_kname_d3_def parse_sim_d3n64)
  with C10_hdim_from_files [OF ok] ok show ?thesis by blast
qed

subsection \<open>The former convention\<close>










subsection \<open>Writing the particles\<close>

lemma ebf_write_success:
  "fs pn = Some (EbfFile d) \<Longrightarrow> tag \<notin> set (keys d) \<Longrightarrow>
   ebf_write fs pn tag a = Inr (fs(pn \<mapsto> EbfFile (d @ [(tag, a)])))"
  by (simp add: ebf_write_def)

lemma write_required_success:
  assumes "fs pn = Some (EbfFile d)" "distinct ks"
    "\<forall>k \<in> set ks. (''/'' @ k) \<notin> set (keys d)"
    "\<forall>k \<in> set ks. map_of (particles inp) k \<noteq> None"
  shows "write_required inp pn ks fs =
     Inr (fs(pn \<mapsto> EbfFile (d @ map (\<lambda>k. (''/'' @ k, the (map_of (particles inp) k))) ks)))"
  using assms
proof (induction ks arbitrary: fs d)
  case Nil
  then show ?case by (simp add: map_upd_triv)
next
  case (Cons k ks)
  from Cons.prems(4) obtain a where a: "map_of (particles inp) k = Some a" by auto
  let ?d = "d @ [(''/'' @ k, a)]"
  let ?fs = "fs(pn \<mapsto> EbfFile ?d)"
  have w: "ebf_write fs pn (''/'' @ k) a = Inr ?fs"
    using Cons.prems(1,3) by (intro ebf_write_success) auto
  have "write_required inp pn ks ?fs =
     Inr (?fs(pn \<mapsto> EbfFile (?d @ map (\<lambda>k. (''/'' @ k, the (map_of (particles inp) k))) ks)))"
    using Cons.prems(2,3,4) by (intro Cons.IH) (auto simp: keys_def)
  with w a show ?case
    by (auto simp: getitem_def fun_eq_iff)
qed

lemma write_optional_success:
  assumes "fs pn = Some (EbfFile d)" "distinct ks"
    "\<forall>k \<in> set ks. (''/'' @ k) \<notin> set (keys d)"
    "length_Input inp = Inr n"
  shows "write_optional inp pn ks fs =
     Inr (fs(pn \<mapsto> EbfFile (d @ map (\<lambda>k. (''/'' @ k, optional_value inp n k)) ks)))"
  using assms(1,2,3)
proof (induction ks arbitrary: fs d)
  case Nil
  then show ?case by (simp add: map_upd_triv)
next
  case (Cons k ks)
  let ?a = "optional_value inp n k"
  have v: "(if k \<in> set (keys (particles inp)) then getitem (particles inp) k
            else (case length_Input inp of Inl e \<Rightarrow> Inl e | Inr n \<Rightarrow> Inr (zeros n))) = Inr ?a"
    by (auto simp: in_keys_iff optional_value_def getitem_def assms(4) zeros_def)
  let ?d = "d @ [(''/'' @ k, ?a)]"
  let ?fs = "fs(pn \<mapsto> EbfFile ?d)"
  have w: "ebf_write fs pn (''/'' @ k) ?a = Inr ?fs"
    using Cons.prems(1,3) by (intro ebf_write_success) auto
  have "write_optional inp pn ks ?fs =
     Inr (?fs(pn \<mapsto> EbfFile (?d @ map (\<lambda>k. (''/'' @ k, optional_value inp n k)) ks)))"
    using Cons.prems(2,3) by (intro Cons.IH) (auto simp: keys_def)
  with w show ?case
    unfolding write_optional.simps v by (auto simp: fun_eq_iff)
qed

lemma map_of_tagged:
  "map_of (map (\<lambda>k. (''/'' @ k, v k)) ks) (''/'' @ k) = (if k \<in> set ks then Some (v k) else None)"
  by (induction ks) auto

lemma keys_distinct:
  "distinct (required_keys_in_particles @ optional_keys_in_particles)"
  by (simp add: key_defs)

lemma keys_disjoint:
  "set required_keys_in_particles \<inter> set optional_keys_in_particles = {}"
  using keys_distinct by simp

lemma optional_value_cong:
  "particles inp' = particles inp \<Longrightarrow> optional_value inp' n k = optional_value inp n k"
  by (simp add: optional_value_def)

lemma write_particles_fresh:
  assumes fe: "\<not> input_files_exist inp" and pa: "pname_attr inp = None"
    and req: "\<forall>k \<in> set required_keys_in_particles. map_of (particles inp) k \<noteq> None"
    and n: "length_Input inp = Inr n"
  shows "write_particles inp fs =
     Inr (joinpath (input_dir inp) (Path_of (name inp @ ''.ebf'')),
          inp\<lparr>pname_attr := Some (joinpath (input_dir inp) (Path_of (name inp @ ''.ebf'')))\<rparr>,
          fs(joinpath (input_dir inp) (Path_of (name inp @ ''.ebf'')) \<mapsto>
             EbfFile (map (\<lambda>k. (''/'' @ k, the (map_of (particles inp) k)))
                        required_keys_in_particles
                      @ map (\<lambda>k. (''/'' @ k, optional_value inp n k))
                          optional_keys_in_particles)))"
proof -
  let ?pn = "joinpath (input_dir inp) (Path_of (name inp @ ''.ebf''))"
  let ?inp = "inp\<lparr>pname_attr := Some ?pn\<rparr>"
  let ?rq = "map (\<lambda>k. (''/'' @ k, the (map_of (particles inp) k))) required_keys_in_particles"
  have d: "distinct required_keys_in_particles" "distinct optional_keys_in_particles"
    using keys_distinct by simp_all
  have r: "write_required ?inp ?pn required_keys_in_particles (ebf_initialize fs ?pn) =
      Inr ((ebf_initialize fs ?pn)(?pn \<mapsto> EbfFile ([] @ map (\<lambda>k. (''/'' @ k, the (map_of (particles ?inp) k))) required_keys_in_particles)))"
    using req d(1) by (intro write_required_success) (simp_all add: ebf_initialize_def keys_def)
  have n': "length_Input ?inp = Inr n"
    using n by (simp add: length_Input_def)
  have disj: "\<forall>k \<in> set optional_keys_in_particles. (''/'' @ k) \<notin> set (keys ?rq)"
    using keys_distinct by (auto simp: keys_def)
  have o: "write_optional ?inp ?pn optional_keys_in_particles (fs(?pn \<mapsto> EbfFile ?rq)) =
      Inr ((fs(?pn \<mapsto> EbfFile ?rq))(?pn \<mapsto> EbfFile (?rq @ map (\<lambda>k. (''/'' @ k, optional_value ?inp n k)) optional_keys_in_particles)))"
    using d(2) disj n' by (intro write_optional_success) simp_all
  have oc: "(\<lambda>k. (''/'' @ k, optional_value ?inp n k)) = (\<lambda>k. (''/'' @ k, optional_value inp n k))"
    by (simp add: optional_value_def)
  show ?thesis
    using fe pa r o unfolding oc
    by (simp add: write_particles_def pname_def Let_def ebf_initialize_def)
qed

text \<open>
  C6. For an instance made from arrays, writing the particles succeeds and leaves one file
  with 18 arrays under distinct names: for each of the 5 required keys the array of the
  particles, and for each of the 13 optional keys the array of the particles when they hold
  the key and otherwise \<open>n\<close> zeros, \<open>n\<close> the length of the mass array. Every optional
  key is in the file, whatever optional properties the caller gave.
\<close>

theorem C6_write_particles:
  assumes "Input_from_arrays C p rp rv dir nm g kf fk = Inr inp"
  shows "\<exists>pn inp' f n. write_particles inp fs = Inr (pn, inp', fs(pn \<mapsto> EbfFile f))
     \<and> length_Input inp = Inr n
     \<and> (\<forall>k \<in> {''pos3'', ''vel3'', ''mass'', ''age'', ''feh''}.
          \<exists>a. map_of (particles inp) k = Some a \<and> map_of f (''/'' @ k) = Some a)
     \<and> (\<forall>k \<in> {''parentid'', ''id'', ''dform'', ''helium'', ''carbon'', ''nitrogen'', ''oxygen'',
               ''neon'', ''magnesium'', ''silicon'', ''sulphur'', ''calcium'', ''alpha''}.
          map_of f (''/'' @ k) =
            Some (case map_of (particles inp) k of
                    Some a \<Rightarrow> a | None \<Rightarrow> Arr1 Float64 (replicate n 0)))
     \<and> length f = 18 \<and> distinct (keys f)"
proof -
  from Input_from_arrays_Inr [OF assms] obtain m where
    so: "schema_ok p" and pi: "particles inp = fill_defaults p m"
    and n: "length_Input inp = Inr (len m)"
    and fe: "\<not> input_files_exist inp" and pa: "pname_attr inp = None"
    by blast
  have req: "\<forall>k \<in> set required_keys_in_particles. map_of (particles inp) k \<noteq> None"
  proof
    fix k assume "k \<in> set required_keys_in_particles"
    with so have "k \<in> set (keys p)"
      unfolding schema_ok_def by (rule_tac subsetD) simp_all
    then show "map_of (particles inp) k \<noteq> None"
      unfolding pi by (rule in_keys_fill_defaults)
  qed
  let ?rq = "map (\<lambda>k. (''/'' @ k, the (map_of (particles inp) k))) required_keys_in_particles"
  let ?op = "map (\<lambda>k. (''/'' @ k, optional_value inp (len m) k)) optional_keys_in_particles"
  let ?all = "required_keys_in_particles @ optional_keys_in_particles"
  let ?v = "\<lambda>k. if k \<in> set required_keys_in_particles then the (map_of (particles inp) k)
                  else optional_value inp (len m) k"
  have nr: "\<forall>k \<in> set optional_keys_in_particles. k \<notin> set required_keys_in_particles"
    using keys_disjoint by blast
  have f: "?rq @ ?op = map (\<lambda>k. (''/'' @ k, ?v k)) ?all"
    using nr by simp
  have look: "\<And>k. map_of (?rq @ ?op) (''/'' @ k) = (if k \<in> set ?all then Some (?v k) else None)"
    unfolding f by (rule map_of_tagged)
  have c1: "\<forall>k \<in> set required_keys_in_particles.
          \<exists>a. map_of (particles inp) k = Some a \<and> map_of (?rq @ ?op) (''/'' @ k) = Some a"
    unfolding look using req by auto
  have c2: "\<forall>k \<in> set optional_keys_in_particles.
          map_of (?rq @ ?op) (''/'' @ k) =
            Some (case map_of (particles inp) k of
                    Some a \<Rightarrow> a | None \<Rightarrow> Arr1 Float64 (replicate (len m) 0))"
    unfolding look using nr by (simp add: optional_value_def)
  have c3: "length (?rq @ ?op) = 18"
    by (simp add: required_keys_in_particles_def optional_keys_in_particles_def)
  have c4: "distinct (keys (?rq @ ?op))"
  proof -
    have "keys (?rq @ ?op) = map ((#) CHR ''/'') ?all"
      unfolding f keys_def by (simp add: comp_def)
    moreover have "distinct (map ((#) CHR ''/'') ?all)"
      unfolding distinct_map using keys_distinct by (intro conjI inj_onI) simp_all
    ultimately show ?thesis by simp
  qed
  show ?thesis
    apply (intro exI conjI)
         apply (rule write_particles_fresh [OF fe pa req n])
        apply (rule n)
       apply (rule c1 [unfolded required_keys_explicit])
      apply (rule c2 [unfolded optional_keys_explicit])
     apply (rule c3)
    apply (rule c4)
    done
qed

theorem C6_write_particles_witness:
  "\<exists>inp pn inp' f. Input_from_arrays example_constants example_particles example_rho_pos
            (Some example_rho_vel) None None 64 None None = Inr inp
     \<and> write_particles inp Map.empty = Inr (pn, inp', [pn \<mapsto> EbfFile f])
     \<and> map_of f ''/mass'' = Some (Arr1 Float32 [5, 6, 7])
     \<and> map_of f ''/helium'' = Some (Arr1 Float64 [0, 0, 0])
     \<and> length f = 18"
proof -
  obtain inp where
    ok: "Input_from_arrays example_constants example_particles example_rho_pos
           (Some example_rho_vel) None None 64 None None = Inr inp"
    and pi: "particles inp = example_particles @
          [(''parentid'', Arr1 Int64 [0, 1, 2]), (''dform'', Arr1 Float32 [0, 0, 0])]"
    using example_Input by simp
  from C6_write_particles [OF ok, of Map.empty] obtain pn inp' f n where
    w: "write_particles inp Map.empty = Inr (pn, inp', [pn \<mapsto> EbfFile f])"
    and n: "length_Input inp = Inr n"
    and r: "\<forall>k \<in> {''pos3'', ''vel3'', ''mass'', ''age'', ''feh''}.
          \<exists>a. map_of (particles inp) k = Some a \<and> map_of f (''/'' @ k) = Some a"
    and o: "\<forall>k \<in> {''parentid'', ''id'', ''dform'', ''helium'', ''carbon'', ''nitrogen'', ''oxygen'',
               ''neon'', ''magnesium'', ''silicon'', ''sulphur'', ''calcium'', ''alpha''}.
          map_of f (''/'' @ k) =
            Some (case map_of (particles inp) k of
                    Some a \<Rightarrow> a | None \<Rightarrow> Arr1 Float64 (replicate n 0))"
    and l: "length f = 18"
    by blast
  from n have n3: "n = 3"
    by (simp add: length_Input_def getitem_def pi example_particles_def mass_key_def)
  from r have "\<exists>a. map_of (particles inp) ''mass'' = Some a \<and> map_of f (''/'' @ ''mass'') = Some a"
    by (rule bspec) simp
  then have m: "map_of f ''/mass'' = Some (Arr1 Float32 [5, 6, 7])"
    by (simp add: pi example_particles_def)
  from o have "map_of f (''/'' @ ''helium'') =
            Some (case map_of (particles inp) ''helium'' of
                    Some a \<Rightarrow> a | None \<Rightarrow> Arr1 Float64 (replicate n 0))"
    by (rule bspec) simp
  then have h: "map_of f ''/helium'' = Some (Arr1 Float64 [0, 0, 0])"
    by (simp add: pi example_particles_def n3 eval_nat_numeral)
  from ok w m h l show ?thesis by blast
qed

subsection \<open>The parameter file\<close>

lemma map_of_dict_update: "map_of (dict_update d m) = map_of d ++ map_of (rev m)"
  unfolding dict_update_def
proof (induction m arbitrary: d)
  case Nil
  then show ?case by simp
next
  case (Cons e m)
  obtain k v where e: "e = (k, v)" by (cases e)
  have "map_of (foldl (\<lambda>acc (k, v). setitem acc k v) (setitem d k v) m)
      = map_of (setitem d k v) ++ map_of (rev m)"
    by (rule Cons.IH)
  also have "\<dots> = map_of d ++ map_of (rev (e # m))"
    by (simp add: e setitem_def update_conv' map_add_upd_left fun_eq_iff map_add_def
        split: option.splits)
  finally show ?case by (simp add: e)
qed

lemma map_of_rev_distinct: "distinct (map fst xs) \<Longrightarrow> map_of (rev xs) = map_of xs"
proof (induction xs)
  case Nil
  then show ?case by simp
next
  case (Cons e xs)
  obtain k v where e: "e = (k, v)" by (cases e)
  from Cons.prems have nk: "map_of xs k = None"
    by (simp add: e map_of_eq_None_iff)
  from Cons have ih: "map_of (rev xs) = map_of xs" by simp
  show ?case
    by (rule ext) (simp add: e ih map_add_def nk split: option.splits)
qed

lemma keys_mandatory_fields:
  "set (keys (mandatory_fields C inp isoc mags)) = mandatory_keys C"
  by (auto simp: mandatory_fields_def dict_update_def setitem_def keys_def dom_update
      mandatory_keys_def)

lemma map_of_mandatory_fields:
  "map_of (mandatory_fields C inp isoc mags) k =
     (if k = TTAGS_nres C then Some (PInt (int (ngb inp)))
      else if k = TTAGS_mag_color_names C then Some mags
      else if k = TTAGS_photo_sys C then Some (PStr (iso_name isoc))
      else if k = TTAGS_photo_categ C then Some (PStr (category isoc))
      else None)"
  by (simp add: mandatory_fields_def map_of_dict_update map_add_def)

lemma dict_pop_keys:
  "dict_pop d k dflt = (v, d') \<Longrightarrow> distinct (keys d) \<Longrightarrow> distinct (keys d')"
  by (auto simp: dict_pop_def keys_def distinct_delete split: option.splits)

lemma write_parameter_file_eq:
  assumes "dict_pop kwargs ''parfile'' (PPath (DEFAULT_PARFILE C)) = (pf, kw)"
    and "path_of_pval pf = Inr parfile0"
  shows "write_parameter_file C inp isoc mags kwargs fs =
     (if \<exists>k \<in> set (keys kw). k \<in> mandatory_keys C then Inl TypeError
      else (case PARFILE_TEMPLATE_substitute C
                  (dict_update (DEFAULTS_FOR_PARFILE C) (mandatory_fields C inp isoc mags @ kw)) of
              Inl e \<Rightarrow> Inl e
            | Inr txt \<Rightarrow>
                Inr ((if is_absolute parfile0 then parfile0
                      else joinpath (input_dir inp) parfile0,
                      dict_update (DEFAULTS_FOR_PARFILE C) (mandatory_fields C inp isoc mags @ kw)),
                     fs((if is_absolute parfile0 then parfile0
                         else joinpath (input_dir inp) parfile0) \<mapsto> TextFile txt))))"
  using assms
  by (simp add: write_parameter_file_def Let_def keys_mandatory_fields split: sum.splits)

text \<open>
  C5, as the code has it. The keyword \<open>parfile\<close> is taken out of the caller's keywords
  first. When one of the remaining keywords is one of the four mandatory fields, the call
  fails with TypeError and nothing is written. Otherwise the resolved mapping holds, for
  each key, the caller's value when the caller gave the key, else the mandatory field's value
  for the four mandatory keys, else the built-in default; the text rendered from it is
  written to the parameter file (relative paths are taken from the input directory), and
  the path and the mapping are returned.
\<close>

theorem C5_parameter_merge:
  assumes "distinct (keys kwargs)"
    and "dict_pop kwargs ''parfile'' (PPath (DEFAULT_PARFILE C)) = (pf, kw)"
    and "path_of_pval pf = Inr parfile0"
  shows "((\<exists>k \<in> set (keys kw). k \<in> {TTAGS_photo_categ C, TTAGS_photo_sys C,
             TTAGS_mag_color_names C, TTAGS_nres C}) \<longrightarrow>
          write_parameter_file C inp isoc mags kwargs fs = Inl TypeError)
     \<and> (\<not> (\<exists>k \<in> set (keys kw). k \<in> {TTAGS_photo_categ C, TTAGS_photo_sys C,
             TTAGS_mag_color_names C, TTAGS_nres C}) \<longrightarrow>
          (\<exists>m. (\<forall>k. map_of m k =
                   (if k \<in> set (keys kw) then map_of kw k
                    else if k = TTAGS_nres C then Some (PInt (int (ngb inp)))
                    else if k = TTAGS_mag_color_names C then Some mags
                    else if k = TTAGS_photo_sys C then Some (PStr (iso_name isoc))
                    else if k = TTAGS_photo_categ C then Some (PStr (category isoc))
                    else map_of (DEFAULTS_FOR_PARFILE C) k))
             \<and> write_parameter_file C inp isoc mags kwargs fs =
                 (case PARFILE_TEMPLATE_substitute C m of
                    Inl e \<Rightarrow> Inl e
                  | Inr txt \<Rightarrow>
                      Inr ((if is_absolute parfile0 then parfile0
                            else joinpath (input_dir inp) parfile0, m),
                           fs((if is_absolute parfile0 then parfile0
                               else joinpath (input_dir inp) parfile0) \<mapsto> TextFile txt)))))"
proof (intro conjI impI)
  assume "\<exists>k \<in> set (keys kw). k \<in> {TTAGS_photo_categ C, TTAGS_photo_sys C,
             TTAGS_mag_color_names C, TTAGS_nres C}"
  then show "write_parameter_file C inp isoc mags kwargs fs = Inl TypeError"
    unfolding write_parameter_file_eq [OF assms(2,3)] mandatory_keys_def by simp
next
  assume n: "\<not> (\<exists>k \<in> set (keys kw). k \<in> {TTAGS_photo_categ C, TTAGS_photo_sys C,
             TTAGS_mag_color_names C, TTAGS_nres C})"
  let ?m = "dict_update (DEFAULTS_FOR_PARFILE C) (mandatory_fields C inp isoc mags @ kw)"
  from dict_pop_keys [OF assms(2,1)] have dk: "distinct (map fst kw)"
    by (simp only: keys_def)
  have look: "\<forall>k. map_of ?m k =
                   (if k \<in> set (keys kw) then map_of kw k
                    else if k = TTAGS_nres C then Some (PInt (int (ngb inp)))
                    else if k = TTAGS_mag_color_names C then Some mags
                    else if k = TTAGS_photo_sys C then Some (PStr (iso_name isoc))
                    else if k = TTAGS_photo_categ C then Some (PStr (category isoc))
                    else map_of (DEFAULTS_FOR_PARFILE C) k)"
  proof
    fix k
    have md: "distinct (map fst (mandatory_fields C inp isoc mags))"
      by (simp add: mandatory_fields_def dict_update_def setitem_def distinct_update)
    have "map_of ?m k =
        (case map_of kw k of
           Some v \<Rightarrow> Some v
         | None \<Rightarrow> (case map_of (mandatory_fields C inp isoc mags) k of
                       Some v \<Rightarrow> Some v
                     | None \<Rightarrow> map_of (DEFAULTS_FOR_PARFILE C) k))"
      by (simp add: map_of_dict_update map_of_rev_distinct [OF dk] map_of_rev_distinct [OF md]
          map_add_def split: option.splits)
    then show "map_of ?m k =
                   (if k \<in> set (keys kw) then map_of kw k
                    else if k = TTAGS_nres C then Some (PInt (int (ngb inp)))
                    else if k = TTAGS_mag_color_names C then Some mags
                    else if k = TTAGS_photo_sys C then Some (PStr (iso_name isoc))
                    else if k = TTAGS_photo_categ C then Some (PStr (category isoc))
                    else map_of (DEFAULTS_FOR_PARFILE C) k)"
      by (auto simp: map_of_mandatory_fields in_keys_iff split: option.splits)
  qed
  have "write_parameter_file C inp isoc mags kwargs fs =
                 (case PARFILE_TEMPLATE_substitute C ?m of
                    Inl e \<Rightarrow> Inl e
                  | Inr txt \<Rightarrow>
                      Inr ((if is_absolute parfile0 then parfile0
                            else joinpath (input_dir inp) parfile0, ?m),
                           fs((if is_absolute parfile0 then parfile0
                               else joinpath (input_dir inp) parfile0) \<mapsto> TextFile txt)))"
    using n unfolding write_parameter_file_eq [OF assms(2,3)] mandatory_keys_def by simp
  with look show "\<exists>m. (\<forall>k. map_of m k =
                   (if k \<in> set (keys kw) then map_of kw k
                    else if k = TTAGS_nres C then Some (PInt (int (ngb inp)))
                    else if k = TTAGS_mag_color_names C then Some mags
                    else if k = TTAGS_photo_sys C then Some (PStr (iso_name isoc))
                    else if k = TTAGS_photo_categ C then Some (PStr (category isoc))
                    else map_of (DEFAULTS_FOR_PARFILE C) k))
             \<and> write_parameter_file C inp isoc mags kwargs fs =
                 (case PARFILE_TEMPLATE_substitute C m of
                    Inl e \<Rightarrow> Inl e
                  | Inr txt \<Rightarrow>
                      Inr ((if is_absolute parfile0 then parfile0
                            else joinpath (input_dir inp) parfile0, m),
                           fs((if is_absolute parfile0 then parfile0
                               else joinpath (input_dir inp) parfile0) \<mapsto> TextFile txt)))"
    by (intro exI [of _ ?m] conjI)
qed

text \<open>
  C5 as stated fails: when the caller overrides \<open>nres\<close>, the mandatory field does not
  win, and no mapping is returned. Python refuses the two values for one keyword.
\<close>

theorem C5_override_of_mandatory_field:
  "write_parameter_file example_constants example_input example_isochrone
     (PNames [''F475W'', ''F814W'']) [(''nres'', PInt 32)] no_files = Inl TypeError"
  by (simp add: write_parameter_file_def dict_pop_def example_constants_def Let_def
      mandatory_fields_def dict_update_def setitem_def keys_def)

lemma example_parfile: "path_of_pval (PStr ''run/params'') = Inr (Path False [''run'', ''params''])"
  by (simp add: Path_of_def)

theorem C5_parameter_merge_witness:
  "write_parameter_file example_constants example_input example_isochrone
     (PNames [''F475W'', ''F814W'']) [(''parfile'', PStr ''run/params''), (''nres'', PInt 32)]
     Map.empty = Inl TypeError
   \<and> (\<exists>m txt. write_parameter_file example_constants example_input example_isochrone
         (PNames [''F475W'', ''F814W'']) [(''parfile'', PStr ''run/params''), (''seed'', PInt 5)]
         Map.empty
        = Inr ((Path True [''tmp'', ''run'', ''params''], m),
               [Path True [''tmp'', ''run'', ''params''] \<mapsto> TextFile txt])
      \<and> map_of m ''seed'' = Some (PInt 5) \<and> map_of m ''nres'' = Some (PInt 64)
      \<and> map_of m ''mag_color_names'' = Some (PNames [''F475W'', ''F814W''])
      \<and> map_of m ''photo_sys'' = Some (PStr ''WFIRST'')
      \<and> map_of m ''photo_categ'' = Some (PStr ''padova''))"
proof -
  let ?C = example_constants and ?mags = "PNames [''F475W'', ''F814W'']"
  let ?kw1 = "[(''parfile'', PStr ''run/params''), (''nres'', PInt 32)]"
  let ?kw2 = "[(''parfile'', PStr ''run/params''), (''seed'', PInt 5)]"
  have d1: "distinct (keys ?kw1)" and d2: "distinct (keys ?kw2)"
    by (simp_all add: keys_def)
  have p1: "dict_pop ?kw1 ''parfile'' (PPath (DEFAULT_PARFILE ?C)) =
      (PStr ''run/params'', [(''nres'', PInt 32)])"
    and p2: "dict_pop ?kw2 ''parfile'' (PPath (DEFAULT_PARFILE ?C)) =
      (PStr ''run/params'', [(''seed'', PInt 5)])"
    by (simp_all add: dict_pop_def)
  have h1: "\<exists>k \<in> set (keys [(''nres'', PInt 32)]). k \<in> {TTAGS_photo_categ ?C, TTAGS_photo_sys ?C,
             TTAGS_mag_color_names ?C, TTAGS_nres ?C}"
    by (simp add: keys_def example_constants_def)
  have h2: "\<not> (\<exists>k \<in> set (keys [(''seed'', PInt 5)]). k \<in> {TTAGS_photo_categ ?C,
             TTAGS_photo_sys ?C, TTAGS_mag_color_names ?C, TTAGS_nres ?C})"
    by (simp add: keys_def example_constants_def)
  have c1: "write_parameter_file ?C example_input example_isochrone ?mags ?kw1 Map.empty
      = Inl TypeError"
    by (rule C5_parameter_merge [OF d1 p1 example_parfile, THEN conjunct1, THEN mp, OF h1])
  from C5_parameter_merge [OF d2 p2 example_parfile, THEN conjunct2, THEN mp, OF h2,
      of example_input ?mags example_isochrone Map.empty]
  obtain m where
    look: "\<And>k. map_of m k =
                   (if k \<in> set (keys [(''seed'', PInt 5)]) then map_of [(''seed'', PInt 5)] k
                    else if k = TTAGS_nres ?C then Some (PInt (int (ngb example_input)))
                    else if k = TTAGS_mag_color_names ?C then Some ?mags
                    else if k = TTAGS_photo_sys ?C then Some (PStr (iso_name example_isochrone))
                    else if k = TTAGS_photo_categ ?C
                      then Some (PStr (category example_isochrone))
                    else map_of (DEFAULTS_FOR_PARFILE ?C) k)"
    and w: "write_parameter_file ?C example_input example_isochrone ?mags ?kw2 Map.empty =
                 (case PARFILE_TEMPLATE_substitute ?C m of
                    Inl e \<Rightarrow> Inl e
                  | Inr txt \<Rightarrow>
                      Inr ((if is_absolute (Path False [''run'', ''params''])
                            then Path False [''run'', ''params'']
                            else joinpath (input_dir example_input)
                                   (Path False [''run'', ''params'']), m),
                           Map.empty((if is_absolute (Path False [''run'', ''params''])
                               then Path False [''run'', ''params'']
                               else joinpath (input_dir example_input)
                                      (Path False [''run'', ''params''])) \<mapsto> TextFile txt)))"
    by blast
  from w have w': "write_parameter_file ?C example_input example_isochrone ?mags ?kw2 Map.empty =
      Inr ((Path True [''tmp'', ''run'', ''params''], m),
           [Path True [''tmp'', ''run'', ''params''] \<mapsto> TextFile (concat (keys m))])"
    by (simp add: example_constants_def example_input_def joinpath_def)
  have l: "map_of m ''seed'' = Some (PInt 5)" "map_of m ''nres'' = Some (PInt 64)"
    "map_of m ''mag_color_names'' = Some ?mags"
    "map_of m ''photo_sys'' = Some (PStr ''WFIRST'')"
    "map_of m ''photo_categ'' = Some (PStr ''padova'')"
    unfolding look
    by (simp_all add: keys_def example_constants_def example_input_def example_isochrone_def
        iso_name_def category_def path_name_def parent_def)
  from c1 w' l show ?thesis by blast
qed

subsection \<open>The kernels\<close>

lemma hdim_iff: "(hdim inp = 6 \<longleftrightarrow> rho_vel inp \<noteq> None) \<and> (hdim inp = 3 \<longleftrightarrow> rho_vel inp = None)"
  by (simp add: hdim_def)

lemma kernels_without_rho_vel:
  "rho_vel inp = None \<Longrightarrow> \<exists>e. kernels inp = Inl e"
  by (auto simp: kernels_def rho_def split: sum.splits)

lemma kernels_with_rho_vel:
  assumes "rho_pos inp = Arr1 t rp" "rho_vel inp = Some rv" "length rp = length rv"
    "k_factor inp = Scalar k"
  shows "kernels inp =
     Inr (map2 (\<lambda>a b. [k / root 3 (4 * pi / 3 * a), k / root 3 (4 * pi / 3 * b)]) rp rv)"
  using assms
  by (auto simp: kernels_def rho_def kernel_length_def cbrt_def FOURTHIRDPI_def)

text \<open>
  C2 at an instance without velocity density: three particles, position densities
  \<open>1, 2, 3\<close>. The construction succeeds and \<open>hdim\<close> is \<open>3\<close>, but \<^verbatim>\<open>kernels\<close>
  raises ValueError, since \<^verbatim>\<open>rho\<close> stacks the densities with \<^verbatim>\<open>None\<close> (the source notes
  \<^verbatim>\<open>TODO what if rho_vel is None\<close>). No kernel length of the position density is derived.
\<close>

theorem C2_kernels_without_rho_vel:
  "Input_from_arrays example_constants example_particles example_rho_pos None None None 64
     None None = Inr (example_input\<lparr>rho_vel := None\<rparr>)
   \<and> hdim (example_input\<lparr>rho_vel := None\<rparr>) = 3
   \<and> kernels (example_input\<lparr>rho_vel := None\<rparr>) = Inl ValueError"
  by (simp add: Input_from_arrays_def init_common_def example_verify example_input_def
      example_constants_def hdim_def kernels_def rho_def example_rho_pos_def)

lemma kernels_array_k_factor:
  "k_factor inp = Array kf \<Longrightarrow> length kf \<noteq> 1 \<Longrightarrow> length kf \<noteq> 2 \<Longrightarrow> \<exists>e. kernels inp = Inl e"
  by (auto simp: kernels_def split: sum.splits rho_array.splits)

lemma kernels_from_files:
  assumes "Input_from_files C eps fs pn kn fk = Inr inp" "\<not> former_flag fk"
  shows "\<exists>kf. k_factor inp = Array kf
     \<and> (length kf \<noteq> 1 \<and> length kf \<noteq> 2 \<longrightarrow> (\<exists>e. kernels inp = Inl e))"
proof -
  from Input_from_files_Inr [OF assms(1)] assms(2)
  obtain nm g p dens rv kfac where
    "init_common C p dens (Some rv) (Some (parent pn)) (Some nm) (Some pn) (Some kn) g
               fk (Some (Array kfac)) True = Inr inp"
    by auto
  then have "k_factor inp = Array kfac"
    by (rule init_common_fields(9)) simp
  then show ?thesis
    by (blast dest: kernels_array_k_factor)
qed

subsection \<open>The round trip through the files\<close>

lemma show_nat_6: "show_nat 6 = ''6''" and show_nat_64: "show_nat 64 = ''64''"
  by (simp_all add: show_nat.simps)

lemma Path_of_names:
  "Path_of ''sim_d6n64_den.ebf'' = Path False [''sim_d6n64_den.ebf'']"
  "Path_of ''sim.ebf'' = Path False [''sim.ebf'']"
  by (simp_all add: Path_of_def)

lemma kname_example:
  "kname example_input = (roundtrip_kname, example_input\<lparr>kname_attr := Some roundtrip_kname\<rparr>)"
  by (simp add: kname_def example_input_def hdim_def show_nat_6 show_nat_64 Path_of_names
      joinpath_def roundtrip_kname_def Let_def)

lemma kernels_example: "kernels example_input = Inr roundtrip_kernels"
  by (simp add: kernels_def rho_def example_input_def example_rho_pos_def example_rho_vel_def
      roundtrip_kernels_def)

lemma rho_kname_attr: "rho (inp\<lparr>kname_attr := x\<rparr>) = rho inp"
  by (auto simp: rho_def split: sum.splits option.splits)

lemma kernels_kname_attr: "kernels (inp\<lparr>kname_attr := x\<rparr>) = kernels inp"
  by (auto simp: kernels_def rho_kname_attr split: sum.splits rho_array.splits
      scalar_or_array.splits)

lemma kernels_example_cached:
  "kernels (example_input\<lparr>kname_attr := Some roundtrip_kname\<rparr>) = Inr roundtrip_kernels"
  by (simp only: kernels_kname_attr kernels_example)

lemma write_kernels_example:
  "write_kernels example_input Map.empty =
     Inr (roundtrip_kname, example_input\<lparr>kname_attr := Some roundtrip_kname\<rparr>,
          [roundtrip_kname \<mapsto> EbfFile roundtrip_kernel_file])"
  unfolding write_kernels_def kname_example
  by (simp add: kernels_example_cached ebf_initialize_def ebf_write_def keys_def density_key_def
      kernels_key_def mass_key_def roundtrip_kernel_file_def example_input_fields)

lemma write_particles_example:
  "write_particles (example_input\<lparr>kname_attr := Some roundtrip_kname\<rparr>)
     [roundtrip_kname \<mapsto> EbfFile roundtrip_kernel_file] =
   Inr (roundtrip_pname,
        example_input\<lparr>kname_attr := Some roundtrip_kname, pname_attr := Some roundtrip_pname\<rparr>,
        roundtrip_fs)"
proof -
  let ?inp = "example_input\<lparr>kname_attr := Some roundtrip_kname\<rparr>"
  have p: "particles ?inp = example_particles @
          [(''parentid'', Arr1 Int64 [0, 1, 2]), (''dform'', Arr1 Float32 [0, 0, 0])]"
    by (simp add: example_input_def)
  have fe: "\<not> input_files_exist ?inp" and pa: "pname_attr ?inp = None"
    by (simp_all add: example_input_fields)
  have req: "\<forall>k \<in> set required_keys_in_particles. map_of (particles ?inp) k \<noteq> None"
    unfolding p by (simp add: key_defs example_particles_def)
  have n: "length_Input ?inp = Inr 3"
    unfolding length_Input_def p by (simp add: getitem_def mass_key_def example_particles_def)
  have f: "map (\<lambda>k. (''/'' @ k, the (map_of (particles ?inp) k))) required_keys_in_particles
           @ map (\<lambda>k. (''/'' @ k, optional_value ?inp 3 k)) optional_keys_in_particles
         = roundtrip_particle_file"
    unfolding p optional_value_def
    by (simp add: key_defs example_particles_def roundtrip_particle_file_def eval_nat_numeral)
  have pn: "joinpath (input_dir ?inp) (Path_of (name ?inp @ ''.ebf'')) = roundtrip_pname"
    by (simp add: example_input_fields Path_of_names joinpath_def roundtrip_pname_def)
  show ?thesis
    unfolding write_particles_fresh [OF fe pa req n] f pn roundtrip_fs_def
    by simp
qed

lemma kernel_length_inverse:
  assumes "0 < r"
  shows "kernel_length k r * cbrt (FOURTHIRDPI * r) = k"
proof -
  have "0 < FOURTHIRDPI * r"
    using assms by (simp add: FOURTHIRDPI_def)
  then have "0 < cbrt (FOURTHIRDPI * r)"
    unfolding cbrt_def by (simp add: real_root_gt_zero)
  then show ?thesis
    by (simp add: kernel_length_def)
qed

lemma rho_vel_recovered:
  assumes "0 < v"
  shows "(1 / kernel_length 1 v) ^ 3 / FOURTHIRDPI = v"
proof -
  have "cbrt (FOURTHIRDPI * v) ^ 3 = FOURTHIRDPI * v"
    unfolding cbrt_def by (rule odd_real_root_pow) simp
  moreover have "0 < FOURTHIRDPI"
    by (simp add: FOURTHIRDPI_def)
  ultimately show ?thesis
    by (simp add: kernel_length_def)
qed

lemma roundtrip_verify:
  "verify_particles (map (\<lambda>(tag, a). (drop 1 tag, a)) roundtrip_particle_file) =
     Inr (map (\<lambda>(tag, a). (drop 1 tag, a)) roundtrip_particle_file)"
  by (simp add: verify_particles_eq schema_ok_def fill_defaults_def roundtrip_particle_file_def
      keys_def key_defs)

lemma roundtrip_k_factor:
  "map2 (\<lambda>h d. h * cbrt (FOURTHIRDPI * d)) (map (\<lambda>r. r ! 0) roundtrip_kernels) [1, 2, 3]
     = [1, 1, 1]"
  using kernel_length_inverse [of 1 1]
  by (simp add: roundtrip_kernels_def kernel_length_inverse)

lemma roundtrip_rho_vel:
  "map2 (\<lambda>k h. (k / h) ^ 3 / FOURTHIRDPI) [1, 1, 1] (map (\<lambda>r. r ! 1) roundtrip_kernels)
     = [4, 5, 6]"
  by (simp add: roundtrip_kernels_def rho_vel_recovered)

text \<open>
  C1 at the example: three particles, position densities \<open>1, 2, 3\<close>, velocity densities
  \<open>4, 5, 6\<close>, \<open>k_factor = 1\<close>. The instance made from arrays has its kernels; both
  files are written; the instance made from the two files recovers the position density,
  the velocity density and the mass, and its \<^verbatim>\<open>k_factor\<close> is the array \<open>1, 1, 1\<close>. But
  its \<^verbatim>\<open>kernels\<close> raises ValueError: an array \<^verbatim>\<open>k_factor\<close> of shape \<open>(3,)\<close> does not
  broadcast against the densities of shape \<open>(3, 2)\<close>.
\<close>

theorem C1_round_trip_kernels:
  "\<exists>inp1 inp2 inp3.
     Input_from_arrays example_constants example_particles example_rho_pos
       (Some example_rho_vel) None None 64 None None = Inr example_input
   \<and> kernels example_input = Inr roundtrip_kernels
   \<and> write_kernels example_input Map.empty =
       Inr (roundtrip_kname, inp1, [roundtrip_kname \<mapsto> EbfFile roundtrip_kernel_file])
   \<and> write_particles inp1 [roundtrip_kname \<mapsto> EbfFile roundtrip_kernel_file] =
       Inr (roundtrip_pname, inp2, roundtrip_fs)
   \<and> Input_from_files example_constants (1 / 2 ^ 52) roundtrip_fs roundtrip_pname
       roundtrip_kname None = Inr inp3
   \<and> rho_pos inp3 = Arr1 Float64 [1, 2, 3] \<and> rho_vel inp3 = Some [4, 5, 6]
   \<and> map_of (particles inp3) ''mass'' = Some (Arr1 Float32 [5, 6, 7])
   \<and> k_factor inp3 = Array [1, 1, 1]
   \<and> kernels inp3 = Inl ValueError"
proof -
  let ?p = "map (\<lambda>(tag, a). (drop 1 tag, a)) roundtrip_particle_file"
  let ?ic = "init_common example_constants ?p (Arr1 Float64 [1, 2, 3]) (Some [4, 5, 6])
       (Some (parent roundtrip_pname)) (Some ''sim'') (Some roundtrip_pname)
       (Some roundtrip_kname) 64 None (Some (Array [1, 1, 1])) True"
  have "Input_from_files example_constants (1 / 2 ^ 52) roundtrip_fs roundtrip_pname
       roundtrip_kname None =
     init_common example_constants ?p (Arr1 Float64 [1, 2, 3])
       (Some (map2 (\<lambda>k h. (k / h) ^ 3 / FOURTHIRDPI)
                (map2 (\<lambda>h d. h * cbrt (FOURTHIRDPI * d)) (map (\<lambda>r. r ! 0) roundtrip_kernels)
                   [1, 2, 3])
                (map (\<lambda>r. r ! 1) roundtrip_kernels)))
       (Some (parent roundtrip_pname)) (Some ''sim'') (Some roundtrip_pname)
       (Some roundtrip_kname) 64 None
       (Some (Array (map2 (\<lambda>h d. h * cbrt (FOURTHIRDPI * d))
                       (map (\<lambda>r. r ! 0) roundtrip_kernels) [1, 2, 3])))
       True"
    by (rule Input_from_files_current [where hdm = 6 and m = "Arr1 Float32 [5, 6, 7]"
          and t' = Float64
          and k = "[(''density'', Arr1 Float64 [1, 2, 3]),
                    (''h_cubic'', Arr2 Float64 2 roundtrip_kernels),
                    (''mass'', Arr1 Float32 [5, 6, 7])]"])
       (simp_all add: roundtrip_fs_def roundtrip_kname_def roundtrip_pname_def parent_def
          path_name_def parse_sim parse_sim_d6n64 ebf_read_def roundtrip_kernel_file_def
          former_flag_def, simp add: roundtrip_kernels_def)
  then have cur: "Input_from_files example_constants (1 / 2 ^ 52) roundtrip_fs roundtrip_pname
       roundtrip_kname None = ?ic"
    unfolding roundtrip_k_factor roundtrip_rho_vel .
  from init_common_success [OF roundtrip_verify] obtain inp3 where
    ic: "?ic = Inr inp3" and p3: "particles inp3 = ?p"
    by blast
  from init_common_fields [OF ic] have
    f: "rho_pos inp3 = Arr1 Float64 [1, 2, 3]" "rho_vel inp3 = Some [4, 5, 6]"
      "k_factor inp3 = Array [1, 1, 1]"
    by simp_all
  have m: "map_of (particles inp3) ''mass'' = Some (Arr1 Float32 [5, 6, 7])"
    unfolding p3 by (simp add: roundtrip_particle_file_def)
  have k: "kernels inp3 = Inl ValueError"
    by (simp add: kernels_def rho_def f)
  from example_input_constructed kernels_example write_kernels_example write_particles_example
    cur [unfolded ic] f m k
  show ?thesis by blast
qed

end
